theory Spec2Isabelle
  imports Main
begin

section \<open>Sort-merge join executor: data model\<close>

text \<open>
  The executor of \<^verbatim>\<open>MergeJoinExec\<close> is embedded with explicit state passing.
  Every function returns the state it leaves behind together with \<open>error option\<close>
  (\<open>None\<close> is Go's \<^verbatim>\<open>nil\<close> error); a Go panic (nil dereference, index out of
  range) is an error value too, raised where the statement that panics stands.
  Loops whose trip count depends on the inputs take fuel and return \<open>None\<close> when
  the fuel runs out, so \<open>None\<close> never stands for a result.
\<close>

datatype error =
  UpstreamError | FilterError | CompareError | JoinerError | SpillError
  | OpenError | CloseError | NilPointer | IndexOutOfRange

text \<open>A column value is an integer or SQL NULL; a row is its columns.\<close>

type_synonym datum = "int option"
type_synonym row = "datum list"

text \<open>\<^verbatim>\<open>chunk.Row\<close>: the index of the row inside its batch, and the columns read through it.\<close>

type_synonym rowRef = "nat \<times> row"

subsection \<open>Batches\<close>

text \<open>
  Modelled from the spec: \<^verbatim>\<open>chunk.Chunk\<close> is not in the sources at hand. A batch is a
  block of rows with an optional selection vector, a capacity, the number of rows its
  consumer asks for, and a memory footprint in bytes (set by whoever fills the columns).
\<close>

record chunk =
  c_rows :: "row list"
  c_sel :: "nat list option"
  c_capacity :: nat
  c_requiredRows :: nat
  c_memBytes :: int

definition NumRows :: "chunk \<Rightarrow> nat" where
  "NumRows c = (case c_sel c of None \<Rightarrow> length (c_rows c) | Some s \<Rightarrow> length s)"

definition GetRow :: "chunk \<Rightarrow> nat \<Rightarrow> rowRef option" where
  "GetRow c i =
     (case c_sel c of
        None \<Rightarrow> (if i < length (c_rows c) then Some (i, c_rows c ! i) else None)
      | Some s \<Rightarrow>
          (if i < length s \<and> s ! i < length (c_rows c)
           then Some (s ! i, c_rows c ! (s ! i)) else None))"

definition IsNull :: "rowRef \<Rightarrow> nat \<Rightarrow> bool option" where
  "IsNull r k = (if k < length (snd r) then Some (snd r ! k = None) else None)"

definition Idx :: "rowRef \<Rightarrow> nat" where
  "Idx r = fst r"

definition IsFull :: "chunk \<Rightarrow> bool" where
  "IsFull c = (c_requiredRows c \<le> NumRows c)"

definition Reset :: "chunk \<Rightarrow> chunk" where
  "Reset c = c\<lparr>c_rows := [], c_sel := None\<rparr>"

definition SetSel :: "chunk \<Rightarrow> nat list option \<Rightarrow> chunk" where
  "SetSel c s = c\<lparr>c_sel := s\<rparr>"

definition SetRequiredRows :: "chunk \<Rightarrow> int \<Rightarrow> nat \<Rightarrow> chunk" where
  "SetRequiredRows c n maxChunk =
     c\<lparr>c_requiredRows := (if n \<le> 0 \<or> int maxChunk < n then maxChunk else nat n)\<rparr>"

definition MemoryUsage :: "chunk \<Rightarrow> int" where
  "MemoryUsage c = c_memBytes c"

definition AppendRow :: "chunk \<Rightarrow> row \<Rightarrow> chunk" where
  "AppendRow c r = c\<lparr>c_rows := c_rows c @ [r]\<rparr>"

definition newChunk :: "nat \<Rightarrow> nat \<Rightarrow> int \<Rightarrow> chunk" where
  "newChunk cap maxChunk bytes =
     \<lparr>c_rows = [], c_sel = None, c_capacity = cap, c_requiredRows = maxChunk, c_memBytes = bytes\<rparr>"

text \<open>The rows an iteration over the batch meets: all of them, or the selected ones.\<close>

definition visibleRows :: "chunk \<Rightarrow> rowRef list" where
  "visibleRows c = List.map_filter (GetRow c) [0..<NumRows c]"

subsection \<open>Iterators\<close>

text \<open>
  Modelled from the spec: \<^verbatim>\<open>chunk.Iterator\<close> and its implementations are not in the
  sources at hand. An iterator is a position in the sequence of rows it ranges over,
  fixed when it is begun; \<open>Current\<close> is \<open>None\<close> at the end. An iterator that was
  never begun ranges over nothing.
\<close>

record iter =
  it_rows :: "rowRef list"
  it_pos :: nat

definition Current :: "iter \<Rightarrow> rowRef option" where
  "Current it = (if it_pos it < length (it_rows it) then Some (it_rows it ! it_pos it) else None)"

definition iterBegin :: "iter \<Rightarrow> iter" where
  "iterBegin it = it\<lparr>it_pos := 0\<rparr>"

definition iterNext :: "iter \<Rightarrow> iter" where
  "iterNext it = (if it_pos it < length (it_rows it) then it\<lparr>it_pos := Suc (it_pos it)\<rparr> else it)"

definition ReachEnd :: "iter \<Rightarrow> iter" where
  "ReachEnd it = it\<lparr>it_pos := length (it_rows it)\<rparr>"

definition NewIterator4Chunk :: "chunk \<Rightarrow> iter" where
  "NewIterator4Chunk c = \<lparr>it_rows = [], it_pos = 0\<rparr>"

definition beginOver :: "rowRef list \<Rightarrow> iter" where
  "beginOver rs = \<lparr>it_rows = rs, it_pos = 0\<rparr>"

subsection \<open>Group checker\<close>

text \<open>
  Modelled from the spec: \<^verbatim>\<open>vecGroupChecker\<close> is not in the sources at hand. It cuts a
  batch into maximal runs of rows with equal key, remembers the key of the last row for
  the next batch, and hands the runs out one by one.
\<close>

record vecGroupChecker =
  gc_items :: "nat list"
  gc_groupOffset :: "nat list"
  gc_nextGroupID :: nat
  gc_lastKey :: "datum list option"

definition newVecGroupChecker :: "nat list \<Rightarrow> vecGroupChecker" where
  "newVecGroupChecker items =
     \<lparr>gc_items = items, gc_groupOffset = [], gc_nextGroupID = 0, gc_lastKey = None\<rparr>"

fun keyOf :: "nat list \<Rightarrow> row \<Rightarrow> datum list option" where
  "keyOf [] r = Some []"
| "keyOf (k # ks) r =
     (if k < length r
      then (case keyOf ks r of None \<Rightarrow> None | Some vs \<Rightarrow> Some (r ! k # vs))
      else None)"

fun keysOf :: "nat list \<Rightarrow> row list \<Rightarrow> datum list list option" where
  "keysOf items [] = Some []"
| "keysOf items (r # rs) =
     (case keyOf items r of
        None \<Rightarrow> None
      | Some k \<Rightarrow> (case keysOf items rs of None \<Rightarrow> None | Some ks \<Rightarrow> Some (k # ks)))"

fun groupEnds :: "'k list \<Rightarrow> nat \<Rightarrow> nat list" where
  "groupEnds [] i = []"
| "groupEnds [k] i = [Suc i]"
| "groupEnds (k # k' # ks) i =
     (if k = k' then groupEnds (k' # ks) (Suc i) else Suc i # groupEnds (k' # ks) (Suc i))"

definition isExhausted :: "vecGroupChecker \<Rightarrow> bool" where
  "isExhausted g = (length (gc_groupOffset g) \<le> gc_nextGroupID g)"

definition splitIntoGroups :: "vecGroupChecker \<Rightarrow> chunk \<Rightarrow> error option \<times> bool \<times> vecGroupChecker" where
  "splitIntoGroups g c =
     (if c_rows c = [] then (None, False, g\<lparr>gc_groupOffset := [], gc_nextGroupID := 0\<rparr>)
      else (case keysOf (gc_items g) (c_rows c) of
              None \<Rightarrow> (Some IndexOutOfRange, False, g)
            | Some ks \<Rightarrow>
                (None, gc_lastKey g = Some (hd ks),
                 g\<lparr>gc_groupOffset := groupEnds ks 0, gc_nextGroupID := 0,
                   gc_lastKey := Some (last ks)\<rparr>)))"

definition getNextGroup :: "vecGroupChecker \<Rightarrow> ((nat \<times> nat) \<times> vecGroupChecker) option" where
  "getNextGroup g =
     (let n = gc_nextGroupID g in
      if n < length (gc_groupOffset g)
      then Some (((if n = 0 then 0 else gc_groupOffset g ! (n - 1)), gc_groupOffset g ! n),
                 g\<lparr>gc_nextGroupID := Suc n\<rparr>)
      else None)"

subsection \<open>Memory and disk counters\<close>

text \<open>
  Modelled from the spec: \<^verbatim>\<open>memory.Tracker\<close> and \<^verbatim>\<open>disk.Tracker\<close> are not in the
  sources at hand. Counters are nodes of a tree; consuming bytes on a node adds them to
  the node and to each of its ancestors. The store below is the heap of the counters
  this operator can reach, one address per place that allocates a counter: the
  statement's two counters, the operator's two, and per side the side's counter and the
  two counters of its row store.
\<close>

datatype slot = InnerSlot | OuterSlot

datatype tref =
  StmtMem | StmtDisk | ExecMem | ExecDisk | TableMem slot | StoreMem slot | StoreDisk slot

record trackers =
  bytesOf :: "tref \<Rightarrow> int"
  parentOf :: "tref \<Rightarrow> tref option"

fun chain :: "nat \<Rightarrow> (tref \<Rightarrow> tref option) \<Rightarrow> tref \<Rightarrow> tref list" where
  "chain 0 p r = [r]"
| "chain (Suc k) p r = r # (case p r of None \<Rightarrow> [] | Some q \<Rightarrow> chain k p q)"

definition Consume :: "tref \<Rightarrow> int \<Rightarrow> trackers \<Rightarrow> trackers" where
  "Consume r n st =
     st\<lparr>bytesOf := fold (\<lambda>a b. b(a := b a + n))
                      (chain (Suc (Suc (Suc (Suc (Suc (Suc (Suc (Suc (Suc 0))))))))) (parentOf st) r)
                      (bytesOf st)\<rparr>"

definition NewTracker :: "tref \<Rightarrow> trackers \<Rightarrow> trackers" where
  "NewTracker r st = st\<lparr>bytesOf := (bytesOf st)(r := 0), parentOf := (parentOf st)(r := None)\<rparr>"

definition Detach :: "tref \<Rightarrow> trackers \<Rightarrow> trackers" where
  "Detach r st =
     (case parentOf st r of
        None \<Rightarrow> st
      | Some p \<Rightarrow> (let st' = Consume p (- bytesOf st r) st
                  in st'\<lparr>parentOf := (parentOf st')(r := None)\<rparr>))"

definition AttachTo :: "tref \<Rightarrow> tref \<Rightarrow> trackers \<Rightarrow> trackers" where
  "AttachTo r p st =
     (let st1 = Detach r st;
          st2 = st1\<lparr>parentOf := (parentOf st1)(r \<mapsto> p)\<rparr>
      in Consume p (bytesOf st2 r) st2)"

subsection \<open>Upstream executors\<close>

text \<open>
  Modelled from the spec: the child executors are not in the sources at hand. A child
  is the script of what its successive \<^verbatim>\<open>Next\<close> calls will do: fill the batch with
  rows (leaving it with some footprint) or fail; when the script is over it leaves the
  batch empty. It notes the number of rows each call asked for.
\<close>

datatype step = Rows "row list" int | Fail

record child =
  script :: "step list"
  requests :: "nat list"
  openErr :: "error option"
  closeErr :: "error option"

definition childNext :: "child \<Rightarrow> chunk \<Rightarrow> error option \<times> child \<times> chunk" where
  "childNext ch c =
     (let ch' = ch\<lparr>requests := requests ch @ [c_requiredRows c]\<rparr> in
      case script ch of
        [] \<Rightarrow> (None, ch', Reset c)
      | Fail # rest \<Rightarrow> (Some UpstreamError, ch'\<lparr>script := rest\<rparr>, Reset c)
      | Rows rs m # rest \<Rightarrow>
          (None, ch'\<lparr>script := rest\<rparr>, (Reset c)\<lparr>c_rows := rs, c_memBytes := m\<rparr>))"

subsection \<open>Row store\<close>

text \<open>
  Modelled from the spec: \<^verbatim>\<open>chunk.RowContainer\<close> is not in the sources at hand. It
  keeps the batches handed to it, in order, each with the selection it had; its bytes
  are on its memory counter until it spills, and on its disk counter afterwards.
\<close>

record rowContainer =
  rc_chunks :: "chunk list"
  rc_chunkSize :: nat
  rc_spilled :: bool
  rc_actionSpill :: bool
  rc_memTracker :: tref
  rc_diskTracker :: tref

definition NumChunks :: "rowContainer \<Rightarrow> nat" where
  "NumChunks rc = length (rc_chunks rc)"

definition rcRows :: "rowContainer \<Rightarrow> rowRef list" where
  "rcRows rc = concat (map visibleRows (rc_chunks rc))"

subsection \<open>The matcher\<close>

text \<open>
  The \<^verbatim>\<open>joiner\<close> interface, of which the executor calls two methods. Its
  implementations are not in the sources at hand, so the executor takes one as a value.
\<close>

record joinerIface =
  tryToMatchInners :: "rowRef \<Rightarrow> iter \<Rightarrow> chunk \<Rightarrow> error option \<times> bool \<times> bool \<times> iter \<times> chunk"
  onMissMatch :: "bool \<Rightarrow> rowRef \<Rightarrow> chunk \<Rightarrow> chunk"

type_synonym compareFunc = "nat \<Rightarrow> nat \<Rightarrow> row \<Rightarrow> row \<Rightarrow> error + int"

subsection \<open>The two structs of the executor\<close>

record mergeJoinTable =
  inited :: bool
  isInner :: bool
  childIndex :: nat
  joinKeys :: "nat list"
  filters :: "(row \<Rightarrow> bool option) list"
  executed :: bool
  childChunk :: "chunk option"
  childChunkIter :: "iter option"
  groupChecker :: "vecGroupChecker option"
  groupRowsSelected :: "nat list option"
  groupRowsIter :: "iter option"
  rowContainer :: "rowContainer option"
  filtersSelected :: "bool list"
  memTracker :: "tref option"

text \<open>
  \<^verbatim>\<open>MergeJoinExec\<close>, together with what it reaches through its base executor and its
  session context: the children, the batch sizes, the counters' heap, whether spilling
  is enabled, the statement's memory quota and whether the scratch disk fails.
\<close>

record MergeJoinExec =
  children :: "child list"
  maxChunkSize :: nat
  initCap :: nat
  allocBytes :: int
  trk :: trackers
  enableTmpStorageOnOOM :: bool
  memQuota :: int
  diskFaulty :: bool
  compareFuncs :: "compareFunc list"
  joiner :: joinerIface
  isOuterJoin :: bool
  desc :: bool
  innerTable :: mergeJoinTable
  outerTable :: mergeJoinTable
  hasMatch :: bool
  hasNull :: bool
  execMemTracker :: "tref option"
  execDiskTracker :: "tref option"

text \<open>A \<^verbatim>\<open>*mergeJoinTable\<close> is the address of one of the two sides.\<close>

definition tbl :: "slot \<Rightarrow> MergeJoinExec \<Rightarrow> mergeJoinTable" where
  "tbl s e = (case s of InnerSlot \<Rightarrow> innerTable e | OuterSlot \<Rightarrow> outerTable e)"

definition setTbl :: "slot \<Rightarrow> mergeJoinTable \<Rightarrow> MergeJoinExec \<Rightarrow> MergeJoinExec" where
  "setTbl s t e = (case s of InnerSlot \<Rightarrow> e\<lparr>innerTable := t\<rparr> | OuterSlot \<Rightarrow> e\<lparr>outerTable := t\<rparr>)"


text \<open>The operations of the row store (modelled from the spec, as is its record).\<close>

definition NewRowContainer :: "slot \<Rightarrow> nat \<Rightarrow> trackers \<Rightarrow> rowContainer \<times> trackers" where
  "NewRowContainer s chunkSize st =
     (\<lparr>rc_chunks = [], rc_chunkSize = chunkSize, rc_spilled = False, rc_actionSpill = False,
       rc_memTracker = StoreMem s, rc_diskTracker = StoreDisk s\<rparr>,
      NewTracker (StoreDisk s) (NewTracker (StoreMem s) st))"

definition rcReset :: "rowContainer \<Rightarrow> bool \<Rightarrow> trackers \<Rightarrow> error option \<times> rowContainer \<times> trackers" where
  "rcReset rc faulty st =
     (if rc_spilled rc \<and> faulty then (Some SpillError, rc, st)
      else
        (let st1 = Consume (rc_memTracker rc) (- bytesOf st (rc_memTracker rc)) st;
             st2 = Consume (rc_diskTracker rc) (- bytesOf st1 (rc_diskTracker rc)) st1
         in (None, rc\<lparr>rc_chunks := [], rc_spilled := False\<rparr>, st2)))"

definition rcAdd ::
  "rowContainer \<Rightarrow> chunk \<Rightarrow> bool \<Rightarrow> int \<Rightarrow> trackers \<Rightarrow> error option \<times> rowContainer \<times> trackers" where
  "rcAdd rc c faulty quota st =
     (if rc_spilled rc then
        (if faulty then (Some SpillError, rc, st)
         else (None, rc\<lparr>rc_chunks := rc_chunks rc @ [c]\<rparr>,
               Consume (rc_diskTracker rc) (MemoryUsage c) st))
      else
        (let st1 = Consume (rc_memTracker rc) (MemoryUsage c) st;
             rc1 = rc\<lparr>rc_chunks := rc_chunks rc @ [c]\<rparr>
         in if rc_actionSpill rc \<and> quota < bytesOf st1 StmtMem then
              (if faulty then (Some SpillError, rc1, st1)
               else
                 (let b = bytesOf st1 (rc_memTracker rc);
                      st2 = Consume (rc_diskTracker rc) b (Consume (rc_memTracker rc) (- b) st1)
                  in (None, rc1\<lparr>rc_spilled := True\<rparr>, st2)))
            else (None, rc1, st1)))"

definition AllocChunk :: "rowContainer \<Rightarrow> int \<Rightarrow> chunk" where
  "AllocChunk rc bytes = newChunk (rc_chunkSize rc) (rc_chunkSize rc) bytes"

definition rcClose :: "rowContainer \<Rightarrow> bool \<Rightarrow> trackers \<Rightarrow> error option \<times> rowContainer \<times> trackers" where
  "rcClose rc faulty st =
     (let st1 = Detach (rc_diskTracker rc) (Detach (rc_memTracker rc) st)
      in if rc_spilled rc \<and> faulty then (Some SpillError, rc, st1)
         else (None, rc\<lparr>rc_chunks := [], rc_spilled := False\<rparr>, st1))"

text \<open>
  Modelled from the spec: \<^verbatim>\<open>expression.VectorizedFilter\<close> is not in the sources at
  hand. A row passes when every predicate holds of it; a predicate that cannot be
  evaluated fails the whole call.
\<close>

fun filterRow :: "(row \<Rightarrow> bool option) list \<Rightarrow> row \<Rightarrow> bool option" where
  "filterRow [] r = Some True"
| "filterRow (f # fs) r =
     (case f r of
        None \<Rightarrow> None
      | Some b \<Rightarrow> (case filterRow fs r of None \<Rightarrow> None | Some b' \<Rightarrow> Some (b \<and> b')))"

fun VectorizedFilter :: "(row \<Rightarrow> bool option) list \<Rightarrow> rowRef list \<Rightarrow> error + bool list" where
  "VectorizedFilter fs [] = Inr []"
| "VectorizedFilter fs (r # rs) =
     (case filterRow fs (snd r) of
        None \<Rightarrow> Inl FilterError
      | Some b \<Rightarrow> (case VectorizedFilter fs rs of Inl x \<Rightarrow> Inl x | Inr bs \<Rightarrow> Inr (b # bs)))"

text \<open>
  Modelled from the spec: the base executor's \<^verbatim>\<open>Open\<close> and \<^verbatim>\<open>Close\<close> are not in
  the sources at hand. They open and close the children and report the first error.
\<close>

definition baseOpen :: "MergeJoinExec \<Rightarrow> error option" where
  "baseOpen e = (case List.map_filter openErr (children e) of [] \<Rightarrow> None | x # _ \<Rightarrow> Some x)"

definition baseClose :: "MergeJoinExec \<Rightarrow> error option" where
  "baseClose e = (case List.map_filter closeErr (children e) of [] \<Rightarrow> None | x # _ \<Rightarrow> Some x)"

definition tryNewCacheChunk :: "MergeJoinExec \<Rightarrow> chunk" where
  "tryNewCacheChunk e = newChunk (initCap e) (maxChunkSize e) (allocBytes e)"

section \<open>The side cursors\<close>

subsection \<open>\<^verbatim>\<open>mergeJoinTable.init\<close>\<close>

definition init :: "slot \<Rightarrow> MergeJoinExec \<Rightarrow> error option \<times> MergeJoinExec" where
  "init s e =
     (let t = tbl s e in
      if length (children e) \<le> childIndex t then (Some IndexOutOfRange, e)
      else
        (let c = tryNewCacheChunk e;
             t1 = t\<lparr>childChunk := Some c,
                    childChunkIter := Some (NewIterator4Chunk c),
                    groupChecker := Some (newVecGroupChecker (joinKeys t)),
                    groupRowsIter := Some (NewIterator4Chunk c)\<rparr>
         in if isInner t then
              (let (rc, st1) = NewRowContainer s (c_capacity c) (trk e);
                   t2 = t1\<lparr>rowContainer := Some rc\<rparr>
               in case execMemTracker e of
                    None \<Rightarrow> (Some NilPointer, setTbl s t2 (e\<lparr>trk := st1\<rparr>))
                  | Some em \<Rightarrow>
                      (let st2 = AttachTo (rc_memTracker rc) em st1 in
                       case execDiskTracker e of
                         None \<Rightarrow> (Some NilPointer, setTbl s t2 (e\<lparr>trk := st2\<rparr>))
                       | Some ed \<Rightarrow>
                           (let st3 = AttachTo (rc_diskTracker rc) ed st2;
                                rc' = (if enableTmpStorageOnOOM e
                                       then rc\<lparr>rc_actionSpill := True\<rparr> else rc);
                                st4 = AttachTo (TableMem s) em (NewTracker (TableMem s) st3);
                                t3 = t2\<lparr>rowContainer := Some rc', memTracker := Some (TableMem s),
                                       inited := True\<rparr>
                            in (None, setTbl s t3
                                  (e\<lparr>trk := Consume (TableMem s) (MemoryUsage c) st4\<rparr>)))))
            else
              (let t2 = t1\<lparr>filtersSelected := [], memTracker := Some (TableMem s)\<rparr>;
                   st1 = NewTracker (TableMem s) (trk e)
               in case execMemTracker e of
                    None \<Rightarrow> (Some NilPointer, setTbl s t2 (e\<lparr>trk := st1\<rparr>))
                  | Some em \<Rightarrow>
                      (let st2 = AttachTo (TableMem s) em st1
                       in (None, setTbl s (t2\<lparr>inited := True\<rparr>)
                             (e\<lparr>trk := Consume (TableMem s) (MemoryUsage c) st2\<rparr>))))))"

subsection \<open>\<^verbatim>\<open>mergeJoinTable.finish\<close>\<close>

definition finish :: "slot \<Rightarrow> MergeJoinExec \<Rightarrow> error option \<times> MergeJoinExec" where
  "finish s e =
     (let t = tbl s e in
      if \<not> inited t then (None, e)
      else
        (case childChunk t of
           None \<Rightarrow> (Some NilPointer, e)
         | Some c \<Rightarrow>
             (case memTracker t of
                None \<Rightarrow> (Some NilPointer, e)
              | Some m \<Rightarrow>
                  (let e1 = e\<lparr>trk := Consume m (- MemoryUsage c) (trk e)\<rparr>;
                       cleared = (\<lambda>t'. t'\<lparr>executed := False, childChunk := None,
                                     childChunkIter := None, groupChecker := None,
                                     groupRowsSelected := None, groupRowsIter := None,
                                     rowContainer := None, filtersSelected := [],
                                     memTracker := None\<rparr>)
                   in if isInner t then
                        (case rowContainer t of
                           None \<Rightarrow> (Some NilPointer, e1)
                         | Some rc \<Rightarrow>
                             (case rcClose rc (diskFaulty e1) (trk e1) of
                                (Some err, rc', st') \<Rightarrow>
                                  (Some err, setTbl s (t\<lparr>rowContainer := Some rc'\<rparr>) (e1\<lparr>trk := st'\<rparr>))
                              | (None, rc', st') \<Rightarrow>
                                  (None, setTbl s (cleared t) (e1\<lparr>trk := st'\<rparr>))))
                      else (None, setTbl s (cleared t) e1)))))"

subsection \<open>\<^verbatim>\<open>mergeJoinTable.hasNullInJoinKey\<close>\<close>

fun hasNullIn :: "nat list \<Rightarrow> rowRef \<Rightarrow> error + bool" where
  "hasNullIn [] r = Inr False"
| "hasNullIn (ordinal # cols) r =
     (case IsNull r ordinal of
        None \<Rightarrow> Inl IndexOutOfRange
      | Some True \<Rightarrow> Inr True
      | Some False \<Rightarrow> hasNullIn cols r)"

definition hasNullInJoinKey :: "mergeJoinTable \<Rightarrow> rowRef \<Rightarrow> error + bool" where
  "hasNullInJoinKey t r = hasNullIn (joinKeys t) r"

subsection \<open>\<^verbatim>\<open>mergeJoinTable.selectNextGroup\<close>\<close>

definition selectNextGroup :: "slot \<Rightarrow> MergeJoinExec \<Rightarrow> error option \<times> MergeJoinExec" where
  "selectNextGroup s e =
     (let t0 = tbl s e;
          t = t0\<lparr>groupRowsSelected := map_option (\<lambda>_. []) (groupRowsSelected t0)\<rparr>
      in case groupChecker t of
           None \<Rightarrow> (Some NilPointer, setTbl s t e)
         | Some g \<Rightarrow>
             (case getNextGroup g of
                None \<Rightarrow> (Some IndexOutOfRange, setTbl s t e)
              | Some ((begin, end), g') \<Rightarrow>
                  (let t1 = t\<lparr>groupChecker := Some g'\<rparr>;
                       selectAll =
                         (case childChunk t1 of
                            None \<Rightarrow> (Some NilPointer, setTbl s t1 e)
                          | Some c \<Rightarrow>
                              (let sel' = (if begin < end
                                           then Some ((case groupRowsSelected t1 of
                                                         None \<Rightarrow> [] | Some xs \<Rightarrow> xs) @ [begin..<end])
                                           else groupRowsSelected t1)
                               in (None, setTbl s (t1\<lparr>groupRowsSelected := sel',
                                                     childChunk := Some (SetSel c sel')\<rparr>) e)))
                   in if isInner t1 then
                        (case childChunk t1 of
                           None \<Rightarrow> (Some NilPointer, setTbl s t1 e)
                         | Some c \<Rightarrow>
                             (case GetRow c begin of
                                None \<Rightarrow> (Some IndexOutOfRange, setTbl s t1 e)
                              | Some r \<Rightarrow>
                                  (case hasNullInJoinKey t1 r of
                                     Inl err \<Rightarrow> (Some err, setTbl s t1 e)
                                   | Inr True \<Rightarrow> (None, setTbl s t1 e)
                                   | Inr False \<Rightarrow> selectAll)))
                      else selectAll)))"

subsection \<open>\<^verbatim>\<open>mergeJoinTable.fetchNextChunk\<close>\<close>

definition fetchNextChunk :: "slot \<Rightarrow> MergeJoinExec \<Rightarrow> error option \<times> MergeJoinExec" where
  "fetchNextChunk s e =
     (let t = tbl s e in
      case childChunk t of
        None \<Rightarrow> (Some NilPointer, e)
      | Some c \<Rightarrow>
          (let oldMemUsage = MemoryUsage c in
           if length (children e) \<le> childIndex t then (Some IndexOutOfRange, e)
           else
             (case childNext (children e ! childIndex t) c of
                (err, ch', c') \<Rightarrow>
                  (let e1 = setTbl s (t\<lparr>childChunk := Some c'\<rparr>)
                              (e\<lparr>children := (children e)[childIndex t := ch']\<rparr>)
                   in case memTracker t of
                        None \<Rightarrow> (Some NilPointer, e1)
                      | Some m \<Rightarrow>
                          (let e2 = e1\<lparr>trk := Consume m (MemoryUsage c' - oldMemUsage) (trk e1)\<rparr>
                           in case err of
                                Some x \<Rightarrow> (Some x, e2)
                              | None \<Rightarrow>
                                  (None, setTbl s ((tbl s e2)\<lparr>executed := (NumRows c' = 0)\<rparr>) e2))))))"


subsection \<open>\<^verbatim>\<open>mergeJoinTable.fetchNextInnerGroup\<close>\<close>

definition lenSel :: "nat list option \<Rightarrow> nat" where
  "lenSel xs = (case xs of None \<Rightarrow> 0 | Some ys \<Rightarrow> length ys)"

text \<open>The first loop: runs are taken until one is kept or the batch has no more.\<close>

fun skipLoop :: "nat \<Rightarrow> slot \<Rightarrow> bool \<Rightarrow> MergeJoinExec \<Rightarrow> (error option \<times> bool \<times> MergeJoinExec) option" where
  "skipLoop 0 s isEmpty e = None"
| "skipLoop (Suc n) s isEmpty e =
     (if \<not> isEmpty then Some (None, isEmpty, e)
      else
        (case groupChecker (tbl s e) of
           None \<Rightarrow> Some (Some NilPointer, isEmpty, e)
         | Some g \<Rightarrow>
             (if isExhausted g then Some (None, isEmpty, e)
              else
                (case selectNextGroup s e of
                   (Some err, e1) \<Rightarrow> Some (Some err, isEmpty, e1)
                 | (None, e1) \<Rightarrow>
                     skipLoop n s (lenSel (groupRowsSelected (tbl s e1)) = 0) e1))))"

text \<open>The body of \<^verbatim>\<open>if !isEmpty\<close>: the batch goes to the row store, a fresh one takes its place.\<close>

definition handOver :: "slot \<Rightarrow> MergeJoinExec \<Rightarrow> error option \<times> MergeJoinExec" where
  "handOver s e =
     (let t = tbl s e in
      case rowContainer t of
        None \<Rightarrow> (Some NilPointer, e)
      | Some rc \<Rightarrow>
          (case childChunk t of
             None \<Rightarrow> (Some NilPointer, e)
           | Some c \<Rightarrow>
               (case rcAdd rc c (diskFaulty e) (memQuota e) (trk e) of
                  (Some err, rc', st') \<Rightarrow>
                    (Some err, setTbl s (t\<lparr>rowContainer := Some rc'\<rparr>) (e\<lparr>trk := st'\<rparr>))
                | (None, rc', st') \<Rightarrow>
                    (let t1 = t\<lparr>rowContainer := Some rc'\<rparr> in
                     case memTracker t1 of
                       None \<Rightarrow> (Some NilPointer, setTbl s t1 (e\<lparr>trk := st'\<rparr>))
                     | Some m \<Rightarrow>
                         (let st1 = Consume m (- MemoryUsage c) st';
                              c' = AllocChunk rc' (allocBytes e);
                              t2 = t1\<lparr>groupRowsSelected := None, childChunk := Some c',
                                     childChunkIter := Some (NewIterator4Chunk c')\<rparr>
                          in (None, setTbl s t2 (e\<lparr>trk := Consume m (MemoryUsage c') st1\<rparr>)))))))"

text \<open>The second loop: while the batch is used up and the child has more, fetch on.\<close>

fun accumLoop :: "nat \<Rightarrow> slot \<Rightarrow> bool \<Rightarrow> MergeJoinExec \<Rightarrow> (error option \<times> MergeJoinExec) option" where
  "accumLoop 0 s isEmpty e = None"
| "accumLoop (Suc n) s isEmpty e =
     (if executed (tbl s e) then Some (None, e)
      else
        (case groupChecker (tbl s e) of
           None \<Rightarrow> Some (Some NilPointer, e)
         | Some g \<Rightarrow>
             (if \<not> isExhausted g then Some (None, e)
              else
                (case (if \<not> isEmpty then handOver s e else (None, e)) of
                   (Some err, e1) \<Rightarrow> Some (Some err, e1)
                 | (None, e1) \<Rightarrow>
                     (case fetchNextChunk s e1 of
                        (Some err, e2) \<Rightarrow> Some (Some err, e2)
                      | (None, e2) \<Rightarrow>
                          (if executed (tbl s e2) then Some (None, e2)
                           else
                             (case groupChecker (tbl s e2) of
                                None \<Rightarrow> Some (Some NilPointer, e2)
                              | Some g2 \<Rightarrow>
                                  (case childChunk (tbl s e2) of
                                     None \<Rightarrow> Some (Some NilPointer, e2)
                                   | Some c2 \<Rightarrow>
                                       (case splitIntoGroups g2 c2 of
                                          (Some err, same, g3) \<Rightarrow>
                                            Some (Some err,
                                                  setTbl s ((tbl s e2)\<lparr>groupChecker := Some g3\<rparr>) e2)
                                        | (None, same, g3) \<Rightarrow>
                                            (let e3 = setTbl s ((tbl s e2)\<lparr>groupChecker := Some g3\<rparr>) e2
                                             in if same \<and> \<not> isEmpty then
                                                  (case selectNextGroup s e3 of
                                                     (Some err, e4) \<Rightarrow> Some (Some err, e4)
                                                   | (None, e4) \<Rightarrow> accumLoop n s isEmpty e4)
                                                else accumLoop n s isEmpty e3))))))))))"

text \<open>The tail: the iterator over the row store, then over the selected rows of the batch.\<close>

definition assemble :: "slot \<Rightarrow> MergeJoinExec \<Rightarrow> error option \<times> MergeJoinExec" where
  "assemble s e =
     (let t = tbl s e in
      case rowContainer t of
        None \<Rightarrow> (Some NilPointer, e)
      | Some rc \<Rightarrow>
          (let fromStore = (NumChunks rc \<noteq> 0);
               fromChunk = (lenSel (groupRowsSelected t) \<noteq> 0)
           in if \<not> fromStore \<and> \<not> fromChunk
              then (Some NilPointer, setTbl s (t\<lparr>groupRowsIter := None\<rparr>) e)
              else
                (case (if fromChunk then map_option visibleRows (childChunk t) else Some []) of
                   None \<Rightarrow> (Some NilPointer, e)
                 | Some cr \<Rightarrow>
                     (None, setTbl s
                        (t\<lparr>groupRowsIter :=
                             Some (beginOver ((if fromStore then rcRows rc else []) @ cr))\<rparr>) e))))"

text \<open>The label \<^verbatim>\<open>fetchNext\<close> and what follows it.\<close>

fun fetchLoop :: "nat \<Rightarrow> slot \<Rightarrow> MergeJoinExec \<Rightarrow> (error option \<times> MergeJoinExec) option" where
  "fetchLoop 0 s e = None"
| "fetchLoop (Suc n) s e =
     (let t = tbl s e;
          body =
            (case skipLoop n s True e of
               None \<Rightarrow> None
             | Some (Some err, isEmpty, e1) \<Rightarrow> Some (Some err, e1)
             | Some (None, isEmpty, e1) \<Rightarrow>
                 (case accumLoop n s isEmpty e1 of
                    None \<Rightarrow> None
                  | Some (Some err, e2) \<Rightarrow> Some (Some err, e2)
                  | Some (None, e2) \<Rightarrow>
                      (if isEmpty then fetchLoop n s e2 else Some (assemble s e2))))
      in if executed t then
           (case groupChecker t of
              None \<Rightarrow> Some (Some NilPointer, e)
            | Some g \<Rightarrow>
                (if isExhausted g then
                   (case groupRowsIter t of
                      None \<Rightarrow> Some (Some NilPointer, e)
                    | Some it \<Rightarrow> Some (None, setTbl s (t\<lparr>groupRowsIter := Some (ReachEnd it)\<rparr>) e))
                 else body))
         else body)"

definition fetchNextInnerGroup :: "nat \<Rightarrow> slot \<Rightarrow> MergeJoinExec \<Rightarrow> (error option \<times> MergeJoinExec) option" where
  "fetchNextInnerGroup n s e =
     (let t = tbl s e in
      case childChunk t of
        None \<Rightarrow> Some (Some NilPointer, e)
      | Some c \<Rightarrow>
          (let t1 = t\<lparr>childChunk := Some (SetSel c None)\<rparr> in
           case rowContainer t1 of
             None \<Rightarrow> Some (Some NilPointer, setTbl s t1 e)
           | Some rc \<Rightarrow>
               (case rcReset rc (diskFaulty e) (trk e) of
                  (Some err, rc', st') \<Rightarrow>
                    Some (Some err, setTbl s (t1\<lparr>rowContainer := Some rc'\<rparr>) (e\<lparr>trk := st'\<rparr>))
                | (None, rc', st') \<Rightarrow>
                    fetchLoop n s (setTbl s (t1\<lparr>rowContainer := Some rc'\<rparr>) (e\<lparr>trk := st'\<rparr>)))))"

subsection \<open>\<^verbatim>\<open>mergeJoinTable.fetchNextOuterGroup\<close>\<close>

text \<open>The last two statements: select the next run and begin the iterator over it.\<close>

definition selectAndBegin :: "slot \<Rightarrow> MergeJoinExec \<Rightarrow> error option \<times> MergeJoinExec" where
  "selectAndBegin s e =
     (case selectNextGroup s e of
        (Some err, e1) \<Rightarrow> (Some err, e1)
      | (None, e1) \<Rightarrow>
          (let t = tbl s e1 in
           case groupRowsIter t of
             None \<Rightarrow> (Some NilPointer, e1)
           | Some it \<Rightarrow>
               (case childChunk t of
                  None \<Rightarrow> (Some NilPointer, e1)
                | Some c \<Rightarrow>
                    (None, setTbl s (t\<lparr>groupRowsIter := Some (beginOver (visibleRows c))\<rparr>) e1))))"

definition fetchNextOuterGroup :: "slot \<Rightarrow> MergeJoinExec \<Rightarrow> int \<Rightarrow> error option \<times> MergeJoinExec" where
  "fetchNextOuterGroup s e requiredRows =
     (let t = tbl s e in
      case groupChecker t of
        None \<Rightarrow> (Some NilPointer, e)
      | Some g \<Rightarrow>
          (if executed t \<and> isExhausted g then (None, e)
           else if \<not> executed t \<and> isExhausted g then
             (case childChunk t of
                None \<Rightarrow> (Some NilPointer, e)
              | Some c \<Rightarrow>
                  (let e1 = (if isOuterJoin e \<and> length (filters t) = 0
                             then setTbl s
                                    (t\<lparr>childChunk := Some (SetRequiredRows c requiredRows (maxChunkSize e))\<rparr>) e
                             else e)
                   in case fetchNextChunk s e1 of
                        (Some err, e2) \<Rightarrow> (Some err, e2)
                      | (None, e2) \<Rightarrow>
                          (let t2 = tbl s e2 in
                           if executed t2 then (None, e2)
                           else
                             (case childChunkIter t2 of
                                None \<Rightarrow> (Some NilPointer, e2)
                              | Some ci \<Rightarrow>
                                  (case childChunk t2 of
                                     None \<Rightarrow> (Some NilPointer, e2)
                                   | Some c2 \<Rightarrow>
                                       (case VectorizedFilter (filters t2) (visibleRows c2) of
                                          Inl err \<Rightarrow>
                                            (Some err, setTbl s (t2\<lparr>filtersSelected := []\<rparr>) e2)
                                        | Inr selected \<Rightarrow>
                                            (let t3 = t2\<lparr>filtersSelected := selected\<rparr> in
                                             case groupChecker t3 of
                                               None \<Rightarrow> (Some NilPointer, setTbl s t3 e2)
                                             | Some g2 \<Rightarrow>
                                                 (case splitIntoGroups g2 c2 of
                                                    (Some err, same, g3) \<Rightarrow>
                                                      (Some err, setTbl s (t3\<lparr>groupChecker := Some g3\<rparr>) e2)
                                                  | (None, same, g3) \<Rightarrow>
                                                      selectAndBegin s
                                                        (setTbl s (t3\<lparr>groupChecker := Some g3\<rparr>) e2)))))))))
           else selectAndBegin s e))"

section \<open>The join driver\<close>

subsection \<open>\<^verbatim>\<open>MergeJoinExec.compare\<close>\<close>

fun compareFrom ::
  "nat \<Rightarrow> nat list \<Rightarrow> compareFunc list \<Rightarrow> nat list \<Rightarrow> rowRef option \<Rightarrow> rowRef \<Rightarrow> error + int" where
  "compareFrom i [] fs innerJoinKeys outerRow innerRow = Inr 0"
| "compareFrom i (ok # oks) fs innerJoinKeys outerRow innerRow =
     (if length fs \<le> i \<or> length innerJoinKeys \<le> i then Inl IndexOutOfRange
      else
        (case outerRow of
           None \<Rightarrow> Inl NilPointer
         | Some orow \<Rightarrow>
             (case (fs ! i) ok (innerJoinKeys ! i) (snd orow) (snd innerRow) of
                Inl err \<Rightarrow> Inl err
              | Inr cmp \<Rightarrow>
                  (if cmp \<noteq> 0 then Inr cmp
                   else compareFrom (Suc i) oks fs innerJoinKeys outerRow innerRow))))"

definition compare :: "MergeJoinExec \<Rightarrow> rowRef option \<Rightarrow> rowRef \<Rightarrow> error + int" where
  "compare e outerRow innerRow =
     compareFrom 0 (joinKeys (outerTable e)) (compareFuncs e) (joinKeys (innerTable e)) outerRow innerRow"

subsection \<open>\<^verbatim>\<open>MergeJoinExec.Close\<close> and \<^verbatim>\<open>MergeJoinExec.Open\<close>\<close>

definition Close :: "MergeJoinExec \<Rightarrow> error option \<times> MergeJoinExec" where
  "Close e =
     (case finish InnerSlot e of
        (Some err, e1) \<Rightarrow> (Some err, e1)
      | (None, e1) \<Rightarrow>
          (case finish OuterSlot e1 of
             (Some err, e2) \<Rightarrow> (Some err, e2)
           | (None, e2) \<Rightarrow>
               (let e3 = e2\<lparr>hasMatch := False, hasNull := False,
                           execMemTracker := None, execDiskTracker := None\<rparr>
                in (baseClose e3, e3))))"

definition Open :: "MergeJoinExec \<Rightarrow> error option \<times> MergeJoinExec" where
  "Open e =
     (case baseOpen e of
        Some err \<Rightarrow> (Some err, e)
      | None \<Rightarrow>
          (let st1 = AttachTo ExecMem StmtMem (NewTracker ExecMem (trk e));
               st2 = AttachTo ExecDisk StmtDisk (NewTracker ExecDisk st1);
               e1 = e\<lparr>execMemTracker := Some ExecMem, execDiskTracker := Some ExecDisk, trk := st2\<rparr>
           in case init InnerSlot e1 of
                (Some err, e2) \<Rightarrow> (Some err, e2)
              | (None, e2) \<Rightarrow> init OuterSlot e2))"


subsection \<open>\<^verbatim>\<open>MergeJoinExec.Next\<close>\<close>

text \<open>How a piece of the loop body ends: the loop goes on, or \<^verbatim>\<open>Next\<close> returns.\<close>

datatype ctl = Continue | Return "error option"

text \<open>
  The loop of the branch ``the outer group falls behind'': every row left in the outer
  group goes to \<^verbatim>\<open>onMissMatch\<close>, until the group ends or the output is full.
\<close>

function missLoop :: "joinerIface \<Rightarrow> iter \<Rightarrow> chunk \<Rightarrow> iter \<times> chunk" where
  "missLoop j it req =
     (if it_pos it < length (it_rows it) \<and> \<not> IsFull req
      then missLoop j (iterNext it) (onMissMatch j False (it_rows it ! it_pos it) req)
      else (it, req))"
  by pat_completeness auto
termination
  by (relation "measure (\<lambda>(j, it, req). length (it_rows it) - it_pos it)")
     (auto simp: iterNext_def)

text \<open>
  The loop \<^verbatim>\<open>for innerIter.Current() != innerIter.End()\<close> for one outer row. It ends with
  \<open>Continue\<close> when the inner group is used up, and with \<open>Return None\<close> when the
  output is full before that.
\<close>

fun tryLoop :: "nat \<Rightarrow> rowRef \<Rightarrow> MergeJoinExec \<Rightarrow> chunk \<Rightarrow> (ctl \<times> MergeJoinExec \<times> chunk) option" where
  "tryLoop 0 row e req = None"
| "tryLoop (Suc n) row e req =
     (case groupRowsIter (innerTable e) of
        None \<Rightarrow> Some (Return (Some NilPointer), e, req)
      | Some it \<Rightarrow>
          (if Current it = None then Some (Continue, e, req)
           else
             (case tryToMatchInners (joiner e) row it req of
                (err, matched, isNull, it', req') \<Rightarrow>
                  (let e1 = e\<lparr>innerTable := (innerTable e)\<lparr>groupRowsIter := Some it'\<rparr>\<rparr> in
                   case err of
                     Some x \<Rightarrow> Some (Return (Some x), e1, req')
                   | None \<Rightarrow>
                       (let e2 = e1\<lparr>hasMatch := (hasMatch e1 \<or> matched),
                                   hasNull := (hasNull e1 \<or> isNull)\<rparr>
                        in if IsFull req' then
                             (if Current it' = None then Some (Continue, e2, req')
                              else Some (Return None, e2, req'))
                           else tryLoop n row e2 req')))))"

text \<open>The loop over the rows of the outer group when the keys are equal.\<close>

fun matchLoop :: "nat \<Rightarrow> MergeJoinExec \<Rightarrow> chunk \<Rightarrow> (ctl \<times> MergeJoinExec \<times> chunk) option" where
  "matchLoop 0 e req = None"
| "matchLoop (Suc n) e req =
     (case groupRowsIter (outerTable e) of
        None \<Rightarrow> Some (Return (Some NilPointer), e, req)
      | Some oit \<Rightarrow>
          (case Current oit of
             None \<Rightarrow> Some (Continue, e, req)
           | Some row \<Rightarrow>
               (if IsFull req then Some (Continue, e, req)
                else if length (filtersSelected (outerTable e)) \<le> Idx row
                then Some (Return (Some IndexOutOfRange), e, req)
                else if \<not> filtersSelected (outerTable e) ! Idx row then
                  matchLoop n
                    (e\<lparr>outerTable := (outerTable e)\<lparr>groupRowsIter := Some (iterNext oit)\<rparr>\<rparr>)
                    (onMissMatch (joiner e) False row req)
                else
                  (case tryLoop n row e req of
                     None \<Rightarrow> None
                   | Some (Return r, e1, req1) \<Rightarrow> Some (Return r, e1, req1)
                   | Some (Continue, e1, req1) \<Rightarrow>
                       (let req2 = (if \<not> hasMatch e1
                                    then onMissMatch (joiner e1) (hasNull e1) row req1 else req1);
                            e2 = e1\<lparr>hasMatch := False, hasNull := False,
                                    innerTable := (innerTable e1)
                                      \<lparr>groupRowsIter := map_option iterBegin (groupRowsIter (innerTable e1))\<rparr>\<rparr>
                        in matchLoop n
                             (e2\<lparr>outerTable := (outerTable e2)\<lparr>groupRowsIter := Some (iterNext oit)\<rparr>\<rparr>)
                             req2)))))"

text \<open>Step (a) of the loop body: an inner iterator at its end asks for the next inner group.\<close>

definition innerPhase :: "nat \<Rightarrow> MergeJoinExec \<Rightarrow> (error option \<times> MergeJoinExec) option" where
  "innerPhase n e =
     (case groupRowsIter (innerTable e) of
        None \<Rightarrow> Some (Some NilPointer, e)
      | Some it \<Rightarrow>
          (if Current it = None then fetchNextInnerGroup n InnerSlot e else Some (None, e)))"

text \<open>Step (b): an outer iterator at its end asks for the next outer group.\<close>

definition outerPhase :: "MergeJoinExec \<Rightarrow> chunk \<Rightarrow> ctl \<times> MergeJoinExec" where
  "outerPhase e req =
     (case groupRowsIter (outerTable e) of
        None \<Rightarrow> (Return (Some NilPointer), e)
      | Some it \<Rightarrow>
          (if Current it = None then
             (case fetchNextOuterGroup OuterSlot e (int (c_requiredRows req) - int (NumRows req)) of
                (Some err, e1) \<Rightarrow> (Return (Some err), e1)
              | (None, e1) \<Rightarrow>
                  (if executed (outerTable e1) then (Return None, e1) else (Continue, e1)))
           else (Continue, e)))"

text \<open>Step (c): \<^verbatim>\<open>cmpResult\<close>.\<close>

definition cmpResultOf :: "MergeJoinExec \<Rightarrow> error + int" where
  "cmpResultOf e =
     (case groupRowsIter (innerTable e) of
        None \<Rightarrow> Inl NilPointer
      | Some iit \<Rightarrow>
          (case Current iit of
             None \<Rightarrow> Inr (if desc e then 1 else - 1)
           | Some innerRow \<Rightarrow>
               (case groupRowsIter (outerTable e) of
                  None \<Rightarrow> Inl NilPointer
                | Some oit \<Rightarrow> compare e (Current oit) innerRow)))"

text \<open>Steps (d) to (f): the three branches on \<^verbatim>\<open>cmpResult\<close>.\<close>

definition dispatch :: "nat \<Rightarrow> MergeJoinExec \<Rightarrow> chunk \<Rightarrow> (ctl \<times> MergeJoinExec \<times> chunk) option" where
  "dispatch n e req =
     (case cmpResultOf e of
        Inl err \<Rightarrow> Some (Return (Some err), e, req)
      | Inr cmpResult \<Rightarrow>
          (if (0 < cmpResult \<and> \<not> desc e) \<or> (cmpResult < 0 \<and> desc e) then
             Some (Continue,
                   e\<lparr>innerTable := (innerTable e)
                       \<lparr>groupRowsIter := map_option ReachEnd (groupRowsIter (innerTable e))\<rparr>\<rparr>,
                   req)
           else if (cmpResult < 0 \<and> \<not> desc e) \<or> (0 < cmpResult \<and> desc e) then
             (case groupRowsIter (outerTable e) of
                None \<Rightarrow> Some (Return (Some NilPointer), e, req)
              | Some oit \<Rightarrow>
                  (case missLoop (joiner e) oit req of
                     (oit', req') \<Rightarrow>
                       Some (Continue,
                             e\<lparr>outerTable := (outerTable e)\<lparr>groupRowsIter := Some oit'\<rparr>\<rparr>, req')))
           else matchLoop n e req))"

fun mainLoop :: "nat \<Rightarrow> MergeJoinExec \<Rightarrow> chunk \<Rightarrow> (error option \<times> MergeJoinExec \<times> chunk) option" where
  "mainLoop 0 e req = None"
| "mainLoop (Suc n) e req =
     (if IsFull req then Some (None, e, req)
      else
        (case innerPhase n e of
           None \<Rightarrow> None
         | Some (Some err, e1) \<Rightarrow> Some (Some err, e1, req)
         | Some (None, e1) \<Rightarrow>
             (case outerPhase e1 req of
                (Return r, e2) \<Rightarrow> Some (r, e2, req)
              | (Continue, e2) \<Rightarrow>
                  (case dispatch n e2 req of
                     None \<Rightarrow> None
                   | Some (Return r, e3, req3) \<Rightarrow> Some (r, e3, req3)
                   | Some (Continue, e3, req3) \<Rightarrow> mainLoop n e3 req3))))"

definition Next :: "nat \<Rightarrow> MergeJoinExec \<Rightarrow> chunk \<Rightarrow> (error option \<times> MergeJoinExec \<times> chunk) option" where
  "Next n e req = mainLoop n e (Reset req)"

section \<open>Collaborators for concrete runs\<close>

text \<open>
  Modelled from the spec: the inner-join and left-outer-join matchers and the
  comparator of integer keys are not in the sources at hand. \<^verbatim>\<open>try_match\<close> appends a
  joined row per inner row until the output is full or the inner iterator is at its
  end, and reports whether it appended any; \<^verbatim>\<open>on_miss_match\<close> appends nothing for
  the inner join and the outer row padded with NULLs for the left outer join. The
  comparator orders NULL before every integer and returns \<open>-1\<close>, \<open>0\<close> or \<open>1\<close>.
\<close>

function joinInners :: "row \<Rightarrow> iter \<Rightarrow> chunk \<Rightarrow> iter \<times> chunk" where
  "joinInners outer it req =
     (if it_pos it < length (it_rows it) \<and> \<not> IsFull req
      then joinInners outer (iterNext it) (AppendRow req (outer @ snd (it_rows it ! it_pos it)))
      else (it, req))"
  by pat_completeness auto
termination
  by (relation "measure (\<lambda>(outer, it, req). length (it_rows it) - it_pos it)")
     (auto simp: iterNext_def)

definition tryMatchAll :: "rowRef \<Rightarrow> iter \<Rightarrow> chunk \<Rightarrow> error option \<times> bool \<times> bool \<times> iter \<times> chunk" where
  "tryMatchAll outer it req =
     (case joinInners (snd outer) it req of
        (it', req') \<Rightarrow> (None, it_pos it' \<noteq> it_pos it, False, it', req'))"

definition innerJoiner :: joinerIface where
  "innerJoiner = \<lparr>tryToMatchInners = tryMatchAll, onMissMatch = (\<lambda>hasNull outer req. req)\<rparr>"

definition leftOuterJoiner :: "nat \<Rightarrow> joinerIface" where
  "leftOuterJoiner innerWidth =
     \<lparr>tryToMatchInners = tryMatchAll,
      onMissMatch = (\<lambda>hasNull outer req. AppendRow req (snd outer @ replicate innerWidth None))\<rparr>"

definition cmpDatum :: "datum \<Rightarrow> datum \<Rightarrow> int" where
  "cmpDatum a b =
     (case a of
        None \<Rightarrow> (case b of None \<Rightarrow> 0 | Some y \<Rightarrow> - 1)
      | Some x \<Rightarrow> (case b of None \<Rightarrow> 1 | Some y \<Rightarrow> (if x < y then - 1 else if y < x then 1 else 0)))"

definition cmpInt :: compareFunc where
  "cmpInt ocol icol orow irow =
     (if ocol < length orow \<and> icol < length irow
      then Inr (cmpDatum (orow ! ocol) (irow ! icol)) else Inl IndexOutOfRange)"

text \<open>A side before \<^verbatim>\<open>Open\<close>, as the builder leaves it, and an executor over two children.\<close>

definition newTable :: "bool \<Rightarrow> nat \<Rightarrow> nat list \<Rightarrow> (row \<Rightarrow> bool option) list \<Rightarrow> mergeJoinTable" where
  "newTable inner idx keys fs =
     \<lparr>inited = False, isInner = inner, childIndex = idx, joinKeys = keys, filters = fs,
      executed = False, childChunk = None, childChunkIter = None, groupChecker = None,
      groupRowsSelected = None, groupRowsIter = None, rowContainer = None,
      filtersSelected = [], memTracker = None\<rparr>"

definition newChild :: "step list \<Rightarrow> child" where
  "newChild sc = \<lparr>script = sc, requests = [], openErr = None, closeErr = None\<rparr>"

definition noTrackers :: trackers where
  "noTrackers = \<lparr>bytesOf = (\<lambda>_. 0), parentOf = (\<lambda>_. None)\<rparr>"

definition newExec :: "joinerIface \<Rightarrow> bool \<Rightarrow> bool \<Rightarrow> nat \<Rightarrow> step list \<Rightarrow> step list \<Rightarrow> MergeJoinExec" where
  "newExec j outerJoin descending maxChunk innerScript outerScript =
     \<lparr>children = [newChild innerScript, newChild outerScript],
      maxChunkSize = maxChunk, initCap = maxChunk, allocBytes = 64, trk = noTrackers,
      enableTmpStorageOnOOM = False, memQuota = 0, diskFaulty = False,
      compareFuncs = [cmpInt], joiner = j, isOuterJoin = outerJoin, desc = descending,
      innerTable = newTable True 0 [0] [], outerTable = newTable False 1 [0] [],
      hasMatch = False, hasNull = False, execMemTracker = None, execDiskTracker = None\<rparr>"

text \<open>A batch of one-column rows with the given keys.\<close>

definition keyRows :: "int list \<Rightarrow> int \<Rightarrow> step" where
  "keyRows ks bytes = Rows (map (\<lambda>k. [Some k]) ks) bytes"


text \<open>The executor after \<^verbatim>\<open>Open\<close>, and the outcome of successive \<^verbatim>\<open>Next\<close> calls on one
  output batch: for each call the error it returned and the rows it left in the batch.\<close>

definition opened :: "MergeJoinExec \<Rightarrow> MergeJoinExec" where
  "opened e = snd (Open e)"

fun runNext :: "nat \<Rightarrow> nat \<Rightarrow> MergeJoinExec \<Rightarrow> chunk \<Rightarrow> (error option \<times> row list) list option" where
  "runNext fuel 0 e req = Some []"
| "runNext fuel (Suc k) e req =
     (case Next fuel e req of
        None \<Rightarrow> None
      | Some (r, e', req') \<Rightarrow> map_option ((#) (r, c_rows req')) (runNext fuel k e' req'))"

text \<open>A state in which the inner iterator is at its end and the outer group has two rows.\<close>

definition missState :: MergeJoinExec where
  "missState = snd (fetchNextOuterGroup OuterSlot
                      (opened (newExec (leftOuterJoiner 1) True False 4 [] [keyRows [1, 1, 3] 50])) 4)"

text \<open>The same state after step (a) of the loop body: the inner side has no rows at all.\<close>

definition missState1 :: MergeJoinExec where
  "missState1 = snd (the (innerPhase 5 missState))"

text \<open>The state of scenario S6 when the first \<^verbatim>\<open>Next\<close> has fetched both groups.\<close>

definition midState :: MergeJoinExec where
  "midState =
     snd (outerPhase
            (snd (the (innerPhase 6
               (opened (newExec innerJoiner False False 4 [keyRows [2, 2, 2] 100] [keyRows [2] 50])))))
            (newChunk 2 2 0))"

text \<open>The state a matcher call leaves behind, the state in which the next outer row is
  taken up, and the output after an outer row is done.\<close>

abbreviation suspendAt :: "MergeJoinExec \<Rightarrow> iter \<Rightarrow> bool \<Rightarrow> bool \<Rightarrow> MergeJoinExec" where
  "suspendAt e it m nl \<equiv>
     e\<lparr>innerTable := (innerTable e)\<lparr>groupRowsIter := Some it\<rparr>,
       hasMatch := (hasMatch e \<or> m), hasNull := (hasNull e \<or> nl)\<rparr>"

abbreviation nextRow :: "MergeJoinExec \<Rightarrow> iter \<Rightarrow> MergeJoinExec" where
  "nextRow e1 oit \<equiv>
     e1\<lparr>hasMatch := False, hasNull := False,
        innerTable := (innerTable e1)
          \<lparr>groupRowsIter := map_option iterBegin (groupRowsIter (innerTable e1))\<rparr>,
        outerTable := (outerTable e1)\<lparr>groupRowsIter := Some (iterNext oit)\<rparr>\<rparr>"

abbreviation rowOutput :: "MergeJoinExec \<Rightarrow> rowRef \<Rightarrow> chunk \<Rightarrow> chunk" where
  "rowOutput e1 row q1 \<equiv>
     (if \<not> hasMatch e1 then onMissMatch (joiner e1) (hasNull e1) row q1 else q1)"

text \<open>A run with two outer and three inner rows of one key, the state after step (a) of its
  first \<^verbatim>\<open>Next\<close>, and the state after step (b).\<close>

definition lateState :: MergeJoinExec where
  "lateState =
     opened (newExec innerJoiner False False 4
       [Rows [[Some 2, Some 20], [Some 2, Some 21], [Some 2, Some 22]] 100]
       [Rows [[Some 2, Some 10], [Some 2, Some 11]] 50])"

definition lateIn :: MergeJoinExec where
  "lateIn = snd (the (innerPhase 6 lateState))"

definition lateMid :: MergeJoinExec where
  "lateMid = snd (outerPhase lateIn (newChunk 4 4 0))"

section \<open>The ledger of the counters\<close>

text \<open>
  The counters the executor reaches: the statement's two, its own two, one per side and the
  two of the inner side's row store, each under its parent.
\<close>

definition tree :: "(tref \<Rightarrow> tref option) \<Rightarrow> bool" where
  "tree p = (p StmtMem = None \<and> p StmtDisk = None \<and> p ExecMem = Some StmtMem \<and>
             p ExecDisk = Some StmtDisk \<and> p (TableMem InnerSlot) = Some ExecMem \<and>
             p (TableMem OuterSlot) = Some ExecMem \<and> p (StoreMem InnerSlot) = Some ExecMem \<and>
             p (StoreDisk InnerSlot) = Some ExecDisk)"

text \<open>
  The bytes on the counters when the sides hold batches of \<open>ci\<close> and \<open>co\<close> bytes and the
  statement's counters stood at \<open>m0\<close> and \<open>d0\<close> before \<^verbatim>\<open>Open\<close>.
\<close>

definition balanced :: "int \<Rightarrow> int \<Rightarrow> (tref \<Rightarrow> int) \<Rightarrow> int \<Rightarrow> int \<Rightarrow> bool" where
  "balanced m0 d0 b ci co =
     (b (TableMem InnerSlot) = ci \<and> b (TableMem OuterSlot) = co \<and>
      b ExecMem = ci + co + b (StoreMem InnerSlot) \<and> b StmtMem = m0 + b ExecMem \<and>
      b ExecDisk = b (StoreDisk InnerSlot) \<and> b StmtDisk = d0 + b ExecDisk)"

definition footprint :: "mergeJoinTable \<Rightarrow> int" where
  "footprint t = (case childChunk t of None \<Rightarrow> 0 | Some c \<Rightarrow> MemoryUsage c)"

definition sideOk :: "slot \<Rightarrow> mergeJoinTable \<Rightarrow> bool" where
  "sideOk s t = (inited t \<and> memTracker t = Some (TableMem s) \<and> childChunk t \<noteq> None)"

definition storeOk :: "mergeJoinTable \<Rightarrow> bool" where
  "storeOk t = (case rowContainer t of
                  None \<Rightarrow> False
                | Some rc \<Rightarrow> rc_memTracker rc = StoreMem InnerSlot \<and> rc_diskTracker rc = StoreDisk InnerSlot)"

text \<open>The state between \<^verbatim>\<open>Open\<close> and \<^verbatim>\<open>Close\<close>: every counter holds what is live.\<close>

definition accounted :: "int \<Rightarrow> int \<Rightarrow> MergeJoinExec \<Rightarrow> bool" where
  "accounted m0 d0 e =
     (execMemTracker e = Some ExecMem \<and> execDiskTracker e = Some ExecDisk \<and>
      tree (parentOf (trk e)) \<and>
      sideOk InnerSlot (innerTable e) \<and> sideOk OuterSlot (outerTable e) \<and>
      isInner (innerTable e) \<and> \<not> isInner (outerTable e) \<and> storeOk (innerTable e) \<and>
      balanced m0 d0 (bytesOf (trk e)) (footprint (innerTable e)) (footprint (outerTable e)))"

text \<open>What that reads of a side and of the executor.\<close>

definition sideLedger where
  "sideLedger t = (inited t, memTracker t, isInner t, childChunk t \<noteq> None, footprint t,
                   map_option (\<lambda>rc. (rc_memTracker rc, rc_diskTracker rc)) (rowContainer t))"

definition ledger where
  "ledger e = (execMemTracker e, execDiskTracker e, trk e,
               sideLedger (innerTable e), sideLedger (outerTable e))"

text \<open>Successive \<^verbatim>\<open>Next\<close> calls, each with its own fuel and output batch, whatever they
  return.\<close>

fun nextCalls :: "(nat \<times> chunk) list \<Rightarrow> MergeJoinExec \<Rightarrow> MergeJoinExec option" where
  "nextCalls [] e = Some e"
| "nextCalls ((n, req) # cs) e =
     (case Next n e req of None \<Rightarrow> None | Some (r, e', req') \<Rightarrow> nextCalls cs e')"

text \<open>A run in which the inner group spans three batches and the row store spills to disk
  (the statement's counters start at 1000 and 7 bytes), and its state after one
  \<^verbatim>\<open>Next\<close>.\<close>

definition memExec :: MergeJoinExec where
  "memExec =
     (newExec innerJoiner False False 2
        [keyRows [2, 2] 100, keyRows [2, 2] 100, keyRows [2, 3] 100] [keyRows [2] 50])
     \<lparr>trk := \<lparr>bytesOf = (\<lambda>_. 0)(StmtMem := 1000, StmtDisk := 7), parentOf = (\<lambda>_. None)\<rparr>,
       enableTmpStorageOnOOM := True, memQuota := 1300\<rparr>"

definition memAfter :: MergeJoinExec where
  "memAfter = the (nextCalls [(12, newChunk 4 4 0)] (opened memExec))"

section \<open>Rules for running the model on concrete inputs\<close>

lemmas chunk_defs = NumRows_def GetRow_def IsNull_def Idx_def IsFull_def Reset_def SetSel_def
  SetRequiredRows_def MemoryUsage_def AppendRow_def newChunk_def visibleRows_def
lemmas iter_defs = Current_def iterBegin_def iterNext_def ReachEnd_def NewIterator4Chunk_def
  beginOver_def
lemmas gc_defs = newVecGroupChecker_def isExhausted_def splitIntoGroups_def getNextGroup_def
lemmas trk_defs = Consume_def NewTracker_def Detach_def AttachTo_def
lemmas rc_defs = NumChunks_def rcRows_def NewRowContainer_def rcReset_def rcAdd_def AllocChunk_def
  rcClose_def
lemmas tbl_defs = tbl_def setTbl_def init_def finish_def hasNullInJoinKey_def selectNextGroup_def
  fetchNextChunk_def lenSel_def handOver_def assemble_def fetchNextInnerGroup_def
  selectAndBegin_def fetchNextOuterGroup_def childNext_def baseOpen_def baseClose_def
  tryNewCacheChunk_def
lemmas exec_defs = compare_def Close_def Open_def innerPhase_def outerPhase_def cmpResultOf_def
  dispatch_def Next_def
lemmas conc_defs = tryMatchAll_def innerJoiner_def leftOuterJoiner_def cmpDatum_def cmpInt_def
  newTable_def newChild_def noTrackers_def newExec_def keyRows_def opened_def

text \<open>The loops on fuel written as a numeral, and every definition with its \<open>let\<close>s unfolded.\<close>

lemmas loop_simps = skipLoop.simps(2) accumLoop.simps(2) fetchLoop.simps(2) tryLoop.simps(2)
  matchLoop.simps(2) mainLoop.simps(2)
lemmas skipLoop_num = skipLoop.simps(2)[of "pred_numeral k", folded numeral_eq_Suc] for k
lemmas accumLoop_num =
  accumLoop.simps(2)[of "pred_numeral k", folded numeral_eq_Suc, unfolded Let_def] for k
lemmas fetchLoop_num =
  fetchLoop.simps(2)[of "pred_numeral k", folded numeral_eq_Suc, unfolded Let_def] for k
lemmas tryLoop_num =
  tryLoop.simps(2)[of "pred_numeral k", folded numeral_eq_Suc, unfolded Let_def] for k
lemmas matchLoop_num =
  matchLoop.simps(2)[of "pred_numeral k", folded numeral_eq_Suc, unfolded Let_def] for k
lemmas mainLoop_num = mainLoop.simps(2)[of "pred_numeral k", folded numeral_eq_Suc] for k
lemmas runNext_num = runNext.simps(2)[of _ "pred_numeral k", folded numeral_eq_Suc] for k
lemmas runNext_one = runNext.simps(2)[of _ 0, folded One_nat_def]
lemmas run_simps =
  chunk_defs[unfolded Let_def] iter_defs gc_defs[unfolded Let_def] trk_defs[unfolded Let_def]
  rc_defs[unfolded Let_def] tbl_defs[unfolded Let_def] exec_defs[unfolded Let_def] conc_defs
  map_filter_def skipLoop_num accumLoop_num fetchLoop_num tryLoop_num matchLoop_num mainLoop_num
  runNext_num runNext_one

declare missLoop.simps [simp del]
declare joinInners.simps [simp del]
declare loop_simps [simp del]


section \<open>Closing\<close>


lemma tbl_setTbl [simp]: "tbl s (setTbl s t e) = t"
  by (cases s) (simp_all add: tbl_def setTbl_def)

lemma tbl_setTbl_other [simp]: "s' \<noteq> s \<Longrightarrow> tbl s' (setTbl s t e) = tbl s' e"
  by (cases s; cases s') (simp_all add: tbl_def setTbl_def)

lemma tbl_trk_update [simp]: "tbl s (e\<lparr>trk := st\<rparr>) = tbl s e"
  by (cases s) (simp_all add: tbl_def)

lemma finish_not_inited: "\<not> inited (tbl s e) \<Longrightarrow> finish s e = (None, e)"
  by (simp add: finish_def)

lemma finish_nil: "inited (tbl s e) \<Longrightarrow> childChunk (tbl s e) = None \<Longrightarrow> finish s e = (Some NilPointer, e)"
  by (simp add: finish_def)

lemma finish_other: "s' \<noteq> s \<Longrightarrow> tbl s' (snd (finish s e)) = tbl s' e"
  by (simp add: finish_def Let_def split: option.splits prod.splits)

lemma finish_ok_inited:
  "finish s e = (None, e') \<Longrightarrow> inited (tbl s e) \<Longrightarrow> inited (tbl s e') \<and> childChunk (tbl s e') = None"
  by (auto simp: finish_def Let_def split: option.splits prod.splits if_splits)

lemma finish_ok_keeps_inited:
  "finish s e = (None, e') \<Longrightarrow> inited (tbl s e') = inited (tbl s e)"
  by (auto simp: finish_def Let_def split: option.splits prod.splits if_splits)

text \<open>
  Claim C10. Closing an operator that was never opened: a side whose \<^verbatim>\<open>init\<close> has not
  run is left as it is by \<^verbatim>\<open>finish\<close>, which returns no error; so \<^verbatim>\<open>Close\<close> touches
  no counter, no row store and no field of either side, resets the operator's own four
  fields, and its result is that of the base executor's \<^verbatim>\<open>Close\<close>.
\<close>

theorem close_before_open:
  assumes "\<not> inited (innerTable e)" and "\<not> inited (outerTable e)"
  shows "finish InnerSlot e = (None, e) \<and> finish OuterSlot e = (None, e) \<and>
         Close e = (baseClose e, e\<lparr>hasMatch := False, hasNull := False,
                                   execMemTracker := None, execDiskTracker := None\<rparr>)"
  using assms by (simp add: finish_not_inited tbl_def Close_def baseClose_def)

theorem close_before_open_witness:
  "\<not> inited (innerTable (newExec innerJoiner False False 4 [keyRows [2] 100] [keyRows [2] 50])) \<and>
   \<not> inited (outerTable (newExec innerJoiner False False 4 [keyRows [2] 100] [keyRows [2] 50])) \<and>
   fst (Close (newExec innerJoiner False False 4 [keyRows [2] 100] [keyRows [2] 50])) = None \<and>
   trk (snd (Close (newExec innerJoiner False False 4 [keyRows [2] 100] [keyRows [2] 50]))) = noTrackers"
  using close_before_open [of "newExec innerJoiner False False 4 [keyRows [2] 100] [keyRows [2] 50]"]
  by (simp add: newExec_def newTable_def newChild_def baseClose_def map_filter_def)

text \<open>
  Claim C1 (closing twice). \<^verbatim>\<open>finish\<close> clears every field of a side but \<^verbatim>\<open>inited\<close>.
  After a \<^verbatim>\<open>Close\<close> that succeeded on an operator with an initialised side, the guard
  of \<^verbatim>\<open>finish\<close> therefore lets the second call through to the cleared batch: the second
  \<^verbatim>\<open>Close\<close> ends in a nil dereference instead of returning without error.
\<close>

theorem second_close_panics:
  assumes "Close e = (None, e')" and "inited (innerTable e) \<or> inited (outerTable e)"
  shows "Close e' = (Some NilPointer, e')"
proof -
  obtain e1 where f1: "finish InnerSlot e = (None, e1)"
    using assms(1) by (auto simp: Close_def split: prod.splits option.splits)
  obtain e2 where f2: "finish OuterSlot e1 = (None, e2)"
    using assms(1) f1 by (auto simp: Close_def split: prod.splits option.splits)
  have e': "e' = e2\<lparr>hasMatch := False, hasNull := False, execMemTracker := None, execDiskTracker := None\<rparr>"
    using assms(1) f1 f2 by (simp add: Close_def Let_def)
  have inner2: "innerTable e2 = innerTable e1"
    using finish_other [of InnerSlot OuterSlot e1] f2 by (simp add: tbl_def)
  have outer1: "outerTable e1 = outerTable e"
    using finish_other [of OuterSlot InnerSlot e] f1 by (simp add: tbl_def)
  have tbls: "innerTable e' = innerTable e1" "outerTable e' = outerTable e2"
    using e' inner2 by simp_all
  show ?thesis
  proof (cases "inited (innerTable e)")
    case True
    then have "inited (tbl InnerSlot e1) \<and> childChunk (tbl InnerSlot e1) = None"
      using finish_ok_inited [OF f1] by (simp add: tbl_def)
    then have "finish InnerSlot e' = (Some NilPointer, e')"
      using tbls by (intro finish_nil) (simp_all add: tbl_def)
    then show ?thesis by (simp add: Close_def)
  next
    case False
    then have e1: "e1 = e" using f1 by (simp add: finish_not_inited tbl_def)
    have "\<not> inited (tbl InnerSlot e')" using False tbls e1 by (simp add: tbl_def)
    then have fi: "finish InnerSlot e' = (None, e')" by (rule finish_not_inited)
    have "inited (outerTable e1)" using False assms(2) outer1 by simp
    then have "inited (tbl OuterSlot e2) \<and> childChunk (tbl OuterSlot e2) = None"
      using finish_ok_inited [OF f2] by (simp add: tbl_def)
    then have "finish OuterSlot e' = (Some NilPointer, e')"
      using tbls by (intro finish_nil) (simp_all add: tbl_def)
    then show ?thesis using fi by (simp add: Close_def)
  qed
qed

theorem second_close_panics_witness:
  "fst (Close (opened (newExec innerJoiner False False 4 [keyRows [2] 100] [keyRows [2] 50]))) = None \<and>
   (inited (innerTable (opened (newExec innerJoiner False False 4 [keyRows [2] 100] [keyRows [2] 50]))) \<or>
    inited (outerTable (opened (newExec innerJoiner False False 4 [keyRows [2] 100] [keyRows [2] 50])))) \<and>
   fst (Close (snd (Close (opened (newExec innerJoiner False False 4 [keyRows [2] 100] [keyRows [2] 50])))))
     = Some NilPointer"
proof -
  let ?e = "opened (newExec innerJoiner False False 4 [keyRows [2] 100] [keyRows [2] 50])"
  have c1: "fst (Close ?e) = None"
    by (simp add: run_simps)
  have i: "inited (innerTable ?e)"
    by (simp add: run_simps)
  have "Close ?e = (None, snd (Close ?e))"
    using c1 by (simp add: prod_eq_iff)
  from second_close_panics [OF this] i have "Close (snd (Close ?e)) = (Some NilPointer, snd (Close ?e))"
    by simp
  then show ?thesis using c1 i by simp
qed

section \<open>The branch of an exhausted inner side\<close>

lemma missLoop_char:
  "\<exists>k. k \<le> length (it_rows it) - it_pos it \<and>
       missLoop j it req =
         (it\<lparr>it_pos := it_pos it + k\<rparr>,
          fold (onMissMatch j False) (take k (drop (it_pos it) (it_rows it))) req) \<and>
       (k = length (it_rows it) - it_pos it \<or>
        IsFull (fold (onMissMatch j False) (take k (drop (it_pos it) (it_rows it))) req))"
proof (induction j it req rule: missLoop.induct)
  case (1 j it req)
  show ?case
  proof (cases "it_pos it < length (it_rows it) \<and> \<not> IsFull req")
    case False
    then have "missLoop j it req = (it, req)" by (subst missLoop.simps) auto
    then show ?thesis using False by (intro exI [of _ 0]) auto
  next
    case True
    let ?it = "iterNext it" and ?req = "onMissMatch j False (it_rows it ! it_pos it) req"
    have nx: "it_rows ?it = it_rows it" "it_pos ?it = Suc (it_pos it)"
      using True by (simp_all add: iterNext_def)
    from "1.IH" [OF True] nx obtain k where
      k: "k \<le> length (it_rows it) - Suc (it_pos it)"
      and m: "missLoop j ?it ?req =
                (?it\<lparr>it_pos := Suc (it_pos it) + k\<rparr>,
                 fold (onMissMatch j False) (take k (drop (Suc (it_pos it)) (it_rows it))) ?req)"
      and f: "k = length (it_rows it) - Suc (it_pos it) \<or>
              IsFull (fold (onMissMatch j False) (take k (drop (Suc (it_pos it)) (it_rows it))) ?req)"
      by auto
    have d: "drop (it_pos it) (it_rows it) = it_rows it ! it_pos it # drop (Suc (it_pos it)) (it_rows it)"
      using True by (simp add: Cons_nth_drop_Suc)
    have "missLoop j it req = missLoop j ?it ?req"
      using True by (subst missLoop.simps) simp
    then have "missLoop j it req =
        (it\<lparr>it_pos := it_pos it + Suc k\<rparr>,
         fold (onMissMatch j False) (take (Suc k) (drop (it_pos it) (it_rows it))) req)"
      using m True d by (simp add: iterNext_def)
    moreover have "Suc k \<le> length (it_rows it) - it_pos it" using k True by auto
    moreover have "Suc k = length (it_rows it) - it_pos it \<or>
        IsFull (fold (onMissMatch j False) (take (Suc k) (drop (it_pos it) (it_rows it))) req)"
      using f d True by auto
    ultimately show ?thesis by blast
  qed
qed

lemma compareFuncs_update_frame [simp]:
  "groupRowsIter (innerTable (e\<lparr>compareFuncs := fs\<rparr>)) = groupRowsIter (innerTable e)"
  by simp

lemma mainLoop_inner_at_end:
  assumes "groupRowsIter (innerTable e) = Some iit" and "Current iit = None"
    and "groupRowsIter (outerTable e) = Some oit"
    and "\<not> IsFull req" and "innerPhase n e0 = Some (None, e1)"
    and "outerPhase e1 req = (Continue, e)"
  shows "mainLoop (Suc n) e0 req =
           mainLoop n
             (e\<lparr>outerTable := (outerTable e)\<lparr>groupRowsIter := Some (fst (missLoop (joiner e) oit req))\<rparr>\<rparr>)
             (snd (missLoop (joiner e) oit req))"
proof -
  have c: "cmpResultOf e = Inr (if desc e then 1 else - 1)"
    using assms(1,2) by (simp add: cmpResultOf_def)
  have d: "dispatch n e req =
           Some (Continue,
                 e\<lparr>outerTable := (outerTable e)\<lparr>groupRowsIter := Some (fst (missLoop (joiner e) oit req))\<rparr>\<rparr>,
                 snd (missLoop (joiner e) oit req))"
    unfolding dispatch_def c using assms(3) by (simp add: case_prod_beta)
  show ?thesis
    using assms(4,5,6) d by (simp add: mainLoop.simps(2))
qed

text \<open>
  Claim C5. In the main loop of \<^verbatim>\<open>Next\<close>, an inner iterator that is at its end after
  steps (a) and (b) makes \<^verbatim>\<open>cmpResult\<close> \<open>-1\<close> for ascending and \<open>1\<close> for descending
  order whatever the comparators are (they are not called); the iteration hands the rows
  left in the outer group to \<^verbatim>\<open>onMissMatch\<close> with \<^verbatim>\<open>hasNull = false\<close>, one after the
  other, until the group is used up or the output is full, and the loop goes on from
  the state this leaves.
\<close>

theorem inner_at_end_miss_match:
  assumes "groupRowsIter (innerTable e) = Some iit" and "Current iit = None"
    and "groupRowsIter (outerTable e) = Some oit"
  shows "cmpResultOf (e\<lparr>compareFuncs := fs\<rparr>) = Inr (if desc e then 1 else - 1) \<and>
         dispatch n (e\<lparr>compareFuncs := fs\<rparr>) req =
           Some (Continue,
                 e\<lparr>compareFuncs := fs,
                   outerTable := (outerTable e)\<lparr>groupRowsIter := Some (fst (missLoop (joiner e) oit req))\<rparr>\<rparr>,
                 snd (missLoop (joiner e) oit req)) \<and>
         (\<exists>k. k \<le> length (it_rows oit) - it_pos oit \<and>
              missLoop (joiner e) oit req =
                (oit\<lparr>it_pos := it_pos oit + k\<rparr>,
                 fold (onMissMatch (joiner e) False) (take k (drop (it_pos oit) (it_rows oit))) req) \<and>
              (k = length (it_rows oit) - it_pos oit \<or>
               IsFull (fold (onMissMatch (joiner e) False) (take k (drop (it_pos oit) (it_rows oit))) req))) \<and>
         (\<forall>e0 e1. \<not> IsFull req \<and> innerPhase n e0 = Some (None, e1) \<and>
                  outerPhase e1 req = (Continue, e) \<longrightarrow>
            mainLoop (Suc n) e0 req =
              mainLoop n
                (e\<lparr>outerTable := (outerTable e)\<lparr>groupRowsIter := Some (fst (missLoop (joiner e) oit req))\<rparr>\<rparr>)
                (snd (missLoop (joiner e) oit req))) \<and>
         (\<forall>e0 e1 req0. req = Reset req0 \<and> \<not> IsFull req \<and> innerPhase n e0 = Some (None, e1) \<and>
                  outerPhase e1 req = (Continue, e) \<longrightarrow>
            Next (Suc n) e0 req0 =
              mainLoop n
                (e\<lparr>outerTable := (outerTable e)\<lparr>groupRowsIter := Some (fst (missLoop (joiner e) oit req))\<rparr>\<rparr>)
                (snd (missLoop (joiner e) oit req)))"
proof -
  have c: "cmpResultOf (e\<lparr>compareFuncs := fs\<rparr>) = Inr (if desc e then 1 else - 1)"
    using assms by (simp add: cmpResultOf_def)
  have d: "dispatch n (e\<lparr>compareFuncs := fs\<rparr>) req =
           Some (Continue,
                 e\<lparr>compareFuncs := fs,
                   outerTable := (outerTable e)\<lparr>groupRowsIter := Some (fst (missLoop (joiner e) oit req))\<rparr>\<rparr>,
                 snd (missLoop (joiner e) oit req))"
    unfolding dispatch_def c using assms(3) by (simp add: case_prod_beta)
  have m: "mainLoop (Suc n) e0 req =
              mainLoop n
                (e\<lparr>outerTable := (outerTable e)\<lparr>groupRowsIter := Some (fst (missLoop (joiner e) oit req))\<rparr>\<rparr>)
                (snd (missLoop (joiner e) oit req))"
    if "\<not> IsFull req" and "innerPhase n e0 = Some (None, e1)" and "outerPhase e1 req = (Continue, e)"
    for e0 e1
    using mainLoop_inner_at_end [OF assms that] .
  have x: "Next (Suc n) e0 req0 =
              mainLoop n
                (e\<lparr>outerTable := (outerTable e)\<lparr>groupRowsIter := Some (fst (missLoop (joiner e) oit req))\<rparr>\<rparr>)
                (snd (missLoop (joiner e) oit req))"
    if "req = Reset req0" and "\<not> IsFull req" and "innerPhase n e0 = Some (None, e1)"
      and "outerPhase e1 req = (Continue, e)"
    for e0 e1 req0
    using m [OF that(2,3,4)] that(1) by (simp add: Next_def)
  from c d m x missLoop_char [of oit "joiner e" req] show ?thesis by blast
qed

theorem inner_at_end_miss_match_witness:
  "groupRowsIter (innerTable missState1) = Some \<lparr>it_rows = [], it_pos = 0\<rparr> \<and>
   Current \<lparr>it_rows = [], it_pos = 0\<rparr> = None \<and>
   groupRowsIter (outerTable missState1) = Some \<lparr>it_rows = [(0, [Some 1]), (1, [Some 1])], it_pos = 0\<rparr> \<and>
   \<not> IsFull (newChunk 8 8 0) \<and>
   innerPhase 5 missState = Some (None, missState1) \<and>
   outerPhase missState1 (newChunk 8 8 0) = (Continue, missState1) \<and>
   cmpResultOf (missState1\<lparr>compareFuncs := []\<rparr>) = Inr (- 1) \<and>
   map_option (\<lambda>(c, e, req). (c, groupRowsIter (outerTable e), c_rows req))
     (dispatch 3 (missState1\<lparr>compareFuncs := []\<rparr>) (newChunk 8 8 0)) =
     Some (Continue, Some \<lparr>it_rows = [(0, [Some 1]), (1, [Some 1])], it_pos = 2\<rparr>,
           [[Some 1, None], [Some 1, None]]) \<and>
   map_option (\<lambda>(r, e, req). (r, c_rows req)) (mainLoop (Suc 5) missState (newChunk 8 8 0)) =
     Some (None, [[Some 1, None], [Some 1, None], [Some 3, None]]) \<and>
   map_option (\<lambda>(r, e, req). (r, c_rows req)) (Next (Suc 5) missState (newChunk 8 8 0)) =
     Some (None, [[Some 1, None], [Some 1, None], [Some 3, None]])"
proof -
  let ?oit = "\<lparr>it_rows = [(0, [Some (1::int)]), (1, [Some 1])], it_pos = 0\<rparr>"
  let ?oit' = "\<lparr>it_rows = [(0, [Some (1::int)]), (1, [Some 1])], it_pos = 2\<rparr>"
  let ?q = "newChunk 8 8 0"
  let ?q' = "(newChunk 8 8 0)\<lparr>c_rows := [[Some 1, None], [Some 1, None]]\<rparr>"
  have i: "groupRowsIter (innerTable missState1) = Some \<lparr>it_rows = [], it_pos = 0\<rparr>"
    by (simp add: missState1_def missState_def run_simps)
  have c: "Current \<lparr>it_rows = [], it_pos = 0\<rparr> = None"
    by (simp add: Current_def)
  have ou: "groupRowsIter (outerTable missState1) = Some ?oit"
    by (simp add: missState1_def missState_def run_simps)
  have nf: "\<not> IsFull ?q" "?q = Reset ?q"
    by (simp_all add: chunk_defs)
  have ip: "innerPhase 5 missState = Some (None, missState1)"
    by (simp add: missState1_def missState_def run_simps)
  have op: "outerPhase missState1 ?q = (Continue, missState1)"
    using ou by (simp add: outerPhase_def Current_def)
  have d: "desc missState1 = False" "joiner missState1 = leftOuterJoiner 1"
    by (simp_all add: missState1_def missState_def run_simps)
  have m: "missLoop (leftOuterJoiner 1) ?oit ?q = (?oit', ?q')"
    by (simp add: missLoop.simps run_simps)
  note t = inner_at_end_miss_match [OF i c ou, of "[]" 5 ?q]
  note t3 = inner_at_end_miss_match [OF i c ou, of "[]" 3 ?q]
  have r: "map_option (\<lambda>(r, e, req). (r, c_rows req))
             (mainLoop 5 (missState1\<lparr>outerTable := (outerTable missState1)\<lparr>groupRowsIter := Some ?oit'\<rparr>\<rparr>) ?q') =
           Some (None, [[Some 1, None], [Some 1, None], [Some 3, None]])"
    by (simp add: missState1_def missState_def missLoop.simps run_simps)
  have ml: "mainLoop (Suc 5) missState ?q =
              mainLoop 5 (missState1\<lparr>outerTable := (outerTable missState1)\<lparr>groupRowsIter := Some ?oit'\<rparr>\<rparr>) ?q'"
    using t nf ip op d m by simp
  have nx: "Next (Suc 5) missState ?q =
              mainLoop 5 (missState1\<lparr>outerTable := (outerTable missState1)\<lparr>groupRowsIter := Some ?oit'\<rparr>\<rparr>) ?q'"
    using t nf ip op d m by (metis fst_conv snd_conv)
  from t3 i c ou nf ip op d m r ml nx
  show ?thesis by (simp add: leftOuterJoiner_def AppendRow_def newChunk_def)
qed

section \<open>The hint on the outer child\<close>

lemma children_setTbl [simp]: "children (setTbl s t e) = children e"
  by (cases s) (simp_all add: setTbl_def)

lemma children_selectNextGroup [simp]: "children (snd (selectNextGroup s e)) = children e"
  by (simp add: selectNextGroup_def Let_def split: option.splits prod.splits sum.splits bool.splits)

lemma children_selectAndBegin [simp]: "children (snd (selectAndBegin s e)) = children e"
proof -
  obtain r e1 where s: "selectNextGroup s e = (r, e1)" by (cases "selectNextGroup s e")
  then have "children e1 = children e" using children_selectNextGroup [of s e] by simp
  then show ?thesis using s by (auto simp: selectAndBegin_def Let_def split: option.splits)
qed

lemma childNext_requests: "requests (fst (snd (childNext ch c))) = requests ch @ [c_requiredRows c]"
  by (simp add: childNext_def Let_def split: list.splits step.splits)

lemma fetchNextChunk_children:
  assumes "childChunk (tbl s e) = Some c" and "childIndex (tbl s e) < length (children e)"
  shows "children (snd (fetchNextChunk s e)) =
           (children e)[childIndex (tbl s e) := fst (snd (childNext (children e ! childIndex (tbl s e)) c))]"
  using assms by (simp add: fetchNextChunk_def Let_def split: option.splits prod.splits)

lemma fetchNextOuterGroup_children:
  assumes "groupChecker (tbl s e) = Some g" and "\<not> executed (tbl s e)" and "isExhausted g"
    and "childChunk (tbl s e) = Some c"
  shows "children (snd (fetchNextOuterGroup s e n)) =
           children (snd (fetchNextChunk s
             (if isOuterJoin e \<and> length (filters (tbl s e)) = 0
              then setTbl s ((tbl s e)\<lparr>childChunk := Some (SetRequiredRows c n (maxChunkSize e))\<rparr>) e
              else e)))"
  using assms
  by (simp add: fetchNextOuterGroup_def Let_def split: option.splits prod.splits sum.splits)

text \<open>
  Claim C6. When \<^verbatim>\<open>fetchNextOuterGroup\<close> fetches a batch (the child has more and the
  runs of the current batch are used up), the child is asked for the hinted number of
  rows (cut to the batch size) exactly when the operator is an outer join and the side
  has no filter; otherwise it is asked for what the batch asked before, a full batch.
\<close>

theorem required_rows_hint:
  assumes "groupChecker (tbl s e) = Some g" and "\<not> executed (tbl s e)" and "isExhausted g"
    and "childChunk (tbl s e) = Some c" and "childIndex (tbl s e) < length (children e)"
  shows "requests (children (snd (fetchNextOuterGroup s e n)) ! childIndex (tbl s e)) =
           requests (children e ! childIndex (tbl s e)) @
             [if isOuterJoin e \<and> filters (tbl s e) = []
              then (if n \<le> 0 \<or> int (maxChunkSize e) < n then maxChunkSize e else nat n)
              else c_requiredRows c]"
proof (cases "isOuterJoin e \<and> filters (tbl s e) = []")
  case True
  let ?c = "SetRequiredRows c n (maxChunkSize e)"
  let ?e = "setTbl s ((tbl s e)\<lparr>childChunk := Some ?c\<rparr>) e"
  have "children (snd (fetchNextOuterGroup s e n)) = children (snd (fetchNextChunk s ?e))"
    using fetchNextOuterGroup_children [OF assms(1-4)] True by simp
  also have "\<dots> = (children e)[childIndex (tbl s e) :=
                       fst (snd (childNext (children e ! childIndex (tbl s e)) ?c))]"
    using fetchNextChunk_children [of s ?e ?c] assms(5) by simp
  finally show ?thesis
    using True assms(5) by (simp add: childNext_requests SetRequiredRows_def)
next
  case False
  have "children (snd (fetchNextOuterGroup s e n)) = children (snd (fetchNextChunk s e))"
    using fetchNextOuterGroup_children [OF assms(1-4)] False by auto
  also have "\<dots> = (children e)[childIndex (tbl s e) :=
                       fst (snd (childNext (children e ! childIndex (tbl s e)) c))]"
    using fetchNextChunk_children [OF assms(4,5)] .
  finally show ?thesis
    using False assms(5) by (auto simp: childNext_requests)
qed


theorem required_rows_hint_witness:
  "groupChecker (tbl OuterSlot (opened (newExec (leftOuterJoiner 1) True False 4 [] [keyRows [1, 1, 3] 50])))
     = Some (newVecGroupChecker [0]) \<and>
   isExhausted (newVecGroupChecker [0]) \<and>
   childChunk (tbl OuterSlot (opened (newExec (leftOuterJoiner 1) True False 4 [] [keyRows [1, 1, 3] 50])))
     = Some (newChunk 4 4 64) \<and>
   requests (children (snd (fetchNextOuterGroup OuterSlot
      (opened (newExec (leftOuterJoiner 1) True False 4 [] [keyRows [1, 1, 3] 50])) 3)) ! 1) = [3] \<and>
   requests (children (snd (fetchNextOuterGroup OuterSlot
      (opened (newExec innerJoiner False False 4 [] [keyRows [1, 1, 3] 50])) 3)) ! 1) = [4]"
proof -
  let ?e = "opened (newExec (leftOuterJoiner 1) True False 4 [] [keyRows [1, 1, 3] 50])"
  let ?f = "opened (newExec innerJoiner False False 4 [] [keyRows [1, 1, 3] 50])"
  have g: "groupChecker (tbl OuterSlot ?e) = Some (newVecGroupChecker [0])"
    "groupChecker (tbl OuterSlot ?f) = Some (newVecGroupChecker [0])"
    by (simp_all add: run_simps)
  have x: "isExhausted (newVecGroupChecker [0])"
    by (simp add: gc_defs)
  have c: "childChunk (tbl OuterSlot ?e) = Some (newChunk 4 4 64)"
    "childChunk (tbl OuterSlot ?f) = Some (newChunk 4 4 64)"
    by (simp_all add: run_simps)
  have n: "\<not> executed (tbl OuterSlot ?e)" "\<not> executed (tbl OuterSlot ?f)"
    by (simp_all add: run_simps)
  have i: "childIndex (tbl OuterSlot ?e) = 1" "childIndex (tbl OuterSlot ?f) = 1"
    by (simp_all add: run_simps)
  have l: "length (children ?e) = 2" "length (children ?f) = 2"
    by (simp_all add: run_simps)
  have o: "isOuterJoin ?e" "filters (tbl OuterSlot ?e) = []" "maxChunkSize ?e = 4"
    "requests (children ?e ! 1) = []" "\<not> isOuterJoin ?f" "requests (children ?f ! 1) = []"
    by (simp_all add: run_simps)
  have "requests (children (snd (fetchNextOuterGroup OuterSlot ?e 3)) ! 1) = [3]"
    using required_rows_hint [OF g(1) n(1) x c(1), of 3] i l o by simp
  moreover have "requests (children (snd (fetchNextOuterGroup OuterSlot ?f 3)) ! 1) = [4]"
    using required_rows_hint [OF g(2) n(2) x c(2), of 3] i l o by (simp add: newChunk_def)
  ultimately show ?thesis using g x c by simp
qed

section \<open>Suspension in the middle of an inner group\<close>

lemma tryLoop_suspend:
  assumes "groupRowsIter (innerTable e) = Some iit" and "Current iit = Some irow"
    and "tryToMatchInners (joiner e) row iit q = (None, m, nl, iit', q')"
    and "IsFull q'" and "Current iit' = Some irow'"
  shows "tryLoop (Suc n) row e q = Some (Return None, suspendAt e iit' m nl, q')"
  using assms by (simp add: tryLoop.simps(2) [unfolded Let_def])

lemma tryLoop_again:
  assumes "groupRowsIter (innerTable e) = Some iit" and "Current iit = Some irow"
    and "tryToMatchInners (joiner e) row iit q = (None, m, nl, iit', q')"
    and "\<not> IsFull q'"
  shows "tryLoop (Suc n) row e q = tryLoop n row (suspendAt e iit' m nl) q'"
  using assms by (simp add: tryLoop.simps(2) [unfolded Let_def])

lemma tryLoop_used_up:
  assumes "groupRowsIter (innerTable e) = Some iit" and "Current iit = Some irow"
    and "tryToMatchInners (joiner e) row iit q = (None, m, nl, iit', q')"
    and "IsFull q'" and "Current iit' = None"
  shows "tryLoop (Suc n) row e q = Some (Continue, suspendAt e iit' m nl, q')"
  using assms by (simp add: tryLoop.simps(2) [unfolded Let_def])

lemma matchLoop_row:
  assumes "groupRowsIter (outerTable e) = Some oit" and "Current oit = Some row"
    and "Idx row < length (filtersSelected (outerTable e))"
    and "filtersSelected (outerTable e) ! Idx row"
    and "\<not> IsFull q"
  shows "matchLoop (Suc n) e q =
     (case tryLoop n row e q of
        None \<Rightarrow> None
      | Some (Return r, e1, q1) \<Rightarrow> Some (Return r, e1, q1)
      | Some (Continue, e1, q1) \<Rightarrow> matchLoop n (nextRow e1 oit) (rowOutput e1 row q1))"
  using assms
  by (simp add: matchLoop.simps(2) [unfolded Let_def] split: option.splits prod.splits ctl.splits)

lemma matchLoop_filtered:
  assumes "groupRowsIter (outerTable e) = Some oit" and "Current oit = Some row"
    and "Idx row < length (filtersSelected (outerTable e))"
    and "\<not> filtersSelected (outerTable e) ! Idx row"
    and "\<not> IsFull q"
  shows "matchLoop (Suc n) e q =
           matchLoop n (e\<lparr>outerTable := (outerTable e)\<lparr>groupRowsIter := Some (iterNext oit)\<rparr>\<rparr>)
             (onMissMatch (joiner e) False row q)"
  using assms by (simp add: matchLoop.simps(2) [unfolded Let_def])

lemma mainLoop_equal_keys:
  assumes "\<not> IsFull q" and "innerPhase n e = Some (None, e1)"
    and "outerPhase e1 q = (Continue, e2)" and "cmpResultOf e2 = Inr 0"
  shows "mainLoop (Suc n) e q =
     (case matchLoop n e2 q of
        None \<Rightarrow> None
      | Some (Return r, e3, q3) \<Rightarrow> Some (r, e3, q3)
      | Some (Continue, e3, q3) \<Rightarrow> mainLoop n e3 q3)"
  using assms
  by (simp add: mainLoop.simps(2) dispatch_def split: option.splits prod.splits ctl.splits)

lemma no_fetch_when_mid_group:
  assumes "groupRowsIter (outerTable e) = Some oit" and "Current oit = Some row"
    and "groupRowsIter (innerTable e) = Some iit" and "Current iit = Some irow"
  shows "innerPhase n e = Some (None, e) \<and> outerPhase e q = (Continue, e) \<and>
         cmpResultOf e = compare e (Some row) irow"
  using assms by (simp add: innerPhase_def outerPhase_def cmpResultOf_def)

lemma resume_step:
  assumes "groupRowsIter (outerTable e) = Some oit" and "Current oit = Some row"
    and "groupRowsIter (innerTable e) = Some iit" and "Current iit = Some irow"
    and "compare e (Some row) irow = Inr 0"
    and "Idx row < length (filtersSelected (outerTable e))"
    and "filtersSelected (outerTable e) ! Idx row"
    and "\<not> IsFull q"
  shows "mainLoop (Suc (Suc n)) e q =
     (case tryLoop n row e q of
        None \<Rightarrow> None
      | Some (Return r, e1, q1) \<Rightarrow> Some (r, e1, q1)
      | Some (Continue, e1, q1) \<Rightarrow>
          (case matchLoop n (nextRow e1 oit) (rowOutput e1 row q1) of
             None \<Rightarrow> None
           | Some (Return r, e3, q3) \<Rightarrow> Some (r, e3, q3)
           | Some (Continue, e3, q3) \<Rightarrow> mainLoop (Suc n) e3 q3))"
proof -
  note nf = no_fetch_when_mid_group [OF assms(1-4)]
  have c: "cmpResultOf e = Inr 0" using nf assms(5) by simp
  have "mainLoop (Suc (Suc n)) e q =
     (case matchLoop (Suc n) e q of
        None \<Rightarrow> None
      | Some (Return r, e3, q3) \<Rightarrow> Some (r, e3, q3)
      | Some (Continue, e3, q3) \<Rightarrow> mainLoop (Suc n) e3 q3)"
    using mainLoop_equal_keys [OF assms(8) _ _ c, of "Suc n"] nf by simp
  then show ?thesis
    unfolding matchLoop_row [OF assms(1,2,6,7,8)]
    by (simp split: option.splits prod.splits ctl.splits)
qed

text \<open>What every run of the two inner loops keeps, and what a return of \<^verbatim>\<open>nil\<close> from
  inside them means.\<close>

lemma tryLoop_frame:
  "tryLoop n row e q = Some (c, e', q') \<Longrightarrow> joiner e' = joiner e \<and> outerTable e' = outerTable e"
proof (induction n arbitrary: e q)
  case 0
  then show ?case by (simp add: tryLoop.simps)
next
  case (Suc n)
  have IH: "joiner e' = joiner e \<and> outerTable e' = outerTable e"
    if "tryLoop n row x y = Some (c, e', q')" and "joiner x = joiner e" and "outerTable x = outerTable e"
    for x y
    using Suc.IH [OF that(1)] that(2,3) by simp
  from Suc.prems show ?case
    unfolding tryLoop.simps(2) Let_def
    by (auto split: option.splits prod.splits if_splits elim!: IH)
qed

lemma tryLoop_return_nil:
  "tryLoop n row e q = Some (Return None, e', q') \<Longrightarrow>
     IsFull q' \<and>
     (\<exists>iit'. groupRowsIter (innerTable e') = Some iit' \<and> Current iit' \<noteq> None \<and>
        (\<exists>iit q0 m nl. tryToMatchInners (joiner e) row iit q0 = (None, m, nl, iit', q')))"
proof (induction n arbitrary: e q)
  case 0
  then show ?case by (simp add: tryLoop.simps)
next
  case (Suc n)
  show ?case
  proof (cases "groupRowsIter (innerTable e)")
    case None
    then show ?thesis using Suc.prems by (simp add: tryLoop.simps(2))
  next
    case (Some iit)
    show ?thesis
    proof (cases "Current iit")
      case None
      then show ?thesis using Suc.prems Some by (simp add: tryLoop.simps(2))
    next
      case (Some irow)
      obtain err m nl iit' q1 where t: "tryToMatchInners (joiner e) row iit q = (err, m, nl, iit', q1)"
        by (cases "tryToMatchInners (joiner e) row iit q") auto
      have errNone: "err = None"
        using Suc.prems \<open>groupRowsIter (innerTable e) = Some iit\<close> Some t
        by (auto simp: tryLoop.simps(2) [unfolded Let_def] split: option.splits)
      show ?thesis
      proof (cases "IsFull q1")
        case True
        then have "Current iit' \<noteq> None \<and> e' = suspendAt e iit' m nl \<and> q' = q1"
          using Suc.prems \<open>groupRowsIter (innerTable e) = Some iit\<close> Some t errNone
          by (auto simp: tryLoop.simps(2) [unfolded Let_def] split: if_splits)
        then show ?thesis using True t errNone by auto
      next
        case False
        then have "tryLoop n row (suspendAt e iit' m nl) q1 = Some (Return None, e', q')"
          using Suc.prems \<open>groupRowsIter (innerTable e) = Some iit\<close> Some t errNone
          by (simp add: tryLoop.simps(2) [unfolded Let_def])
        from Suc.IH [OF this] show ?thesis by simp
      qed
    qed
  qed
qed


lemma matchLoop_return_nil:
  "matchLoop n e q = Some (Return None, e', q') \<Longrightarrow>
     IsFull q' \<and> joiner e' = joiner e \<and>
     (\<exists>oit row iit'.
        groupRowsIter (outerTable e') = Some oit \<and> Current oit = Some row \<and>
        Idx row < length (filtersSelected (outerTable e')) \<and>
        filtersSelected (outerTable e') ! Idx row \<and>
        groupRowsIter (innerTable e') = Some iit' \<and> Current iit' \<noteq> None \<and>
        (\<exists>iit q0 m nl. tryToMatchInners (joiner e) row iit q0 = (None, m, nl, iit', q')))"
proof (induction n arbitrary: e q)
  case 0
  then show ?case by (simp add: matchLoop.simps)
next
  case (Suc n)
  let ?P = "\<lambda>j. IsFull q' \<and> joiner e' = j \<and>
     (\<exists>oit row iit'.
        groupRowsIter (outerTable e') = Some oit \<and> Current oit = Some row \<and>
        Idx row < length (filtersSelected (outerTable e')) \<and>
        filtersSelected (outerTable e') ! Idx row \<and>
        groupRowsIter (innerTable e') = Some iit' \<and> Current iit' \<noteq> None \<and>
        (\<exists>iit q0 m nl. tryToMatchInners j row iit q0 = (None, m, nl, iit', q')))"
  have IH: "?P (joiner e)" if "matchLoop n x y = Some (Return None, e', q')" and "joiner x = joiner e"
    for x y
    using Suc.IH [OF that(1)] that(2) by simp
  show ?case
  proof (cases "groupRowsIter (outerTable e)")
    case None
    then show ?thesis using Suc.prems by (simp add: matchLoop.simps(2))
  next
    case (Some oit)
    note oit = this
    show ?thesis
    proof (cases "Current oit")
      case None
      then show ?thesis using Suc.prems oit by (simp add: matchLoop.simps(2))
    next
      case (Some row)
      note row = this
      have nf: "\<not> IsFull q"
        using Suc.prems oit row by (auto simp: matchLoop.simps(2) split: if_splits)
      have ix: "Idx row < length (filtersSelected (outerTable e))"
        using Suc.prems oit row nf by (auto simp: matchLoop.simps(2) split: if_splits)
      show ?thesis
      proof (cases "filtersSelected (outerTable e) ! Idx row")
        case False
        have "matchLoop n (e\<lparr>outerTable := (outerTable e)\<lparr>groupRowsIter := Some (iterNext oit)\<rparr>\<rparr>)
                (onMissMatch (joiner e) False row q) = Some (Return None, e', q')"
          using Suc.prems matchLoop_filtered [OF oit row ix False nf, of n] by simp
        then show ?thesis by (rule IH) simp
      next
        case True
        note eq = matchLoop_row [OF oit row ix True nf, of n]
        show ?thesis
        proof (cases "tryLoop n row e q")
          case None
          then show ?thesis using Suc.prems eq by simp
        next
          case (Some r)
          obtain c e1 q1 where r: "r = (c, e1, q1)" by (cases r) auto
          note fr = tryLoop_frame [OF Some [unfolded r]]
          show ?thesis
          proof (cases c)
            case Continue
            have "matchLoop n (nextRow e1 oit) (rowOutput e1 row q1) = Some (Return None, e', q')"
              using Suc.prems eq Some r Continue by simp
            then show ?thesis by (rule IH) (simp add: fr)
          next
            case (Return x)
            have e: "x = None" "e1 = e'" "q1 = q'"
              using Suc.prems eq Some r Return by simp_all
            from tryLoop_return_nil [OF Some [unfolded r Return e]] fr oit row ix True e
            show ?thesis by (simp del: split_paired_Ex)
          qed
        qed
      qed
    qed
  qed
qed

lemma resume_after_suspension:
  assumes "matchLoop n e q = Some (Return None, e', q')"
  shows "\<exists>oit row iit' irow'.
           groupRowsIter (outerTable e') = Some oit \<and> Current oit = Some row \<and>
           groupRowsIter (innerTable e') = Some iit' \<and> Current iit' = Some irow' \<and>
           (\<exists>iit q0 m nl. tryToMatchInners (joiner e) row iit q0 = (None, m, nl, iit', q')) \<and>
           (\<forall>k q2. \<not> IsFull q2 \<and> compare e' (Some row) irow' = Inr 0 \<longrightarrow>
              mainLoop (Suc (Suc k)) e' q2 =
                (case tryLoop k row e' q2 of
                   None \<Rightarrow> None
                 | Some (Return r, e1, q1) \<Rightarrow> Some (r, e1, q1)
                 | Some (Continue, e1, q1) \<Rightarrow>
                     (case matchLoop k (nextRow e1 oit) (rowOutput e1 row q1) of
                        None \<Rightarrow> None
                      | Some (Return r, e3, q3) \<Rightarrow> Some (r, e3, q3)
                      | Some (Continue, e3, q3) \<Rightarrow> mainLoop (Suc k) e3 q3)))"
proof -
  from matchLoop_return_nil [OF assms] obtain oit row iit' irow' where
    a: "groupRowsIter (outerTable e') = Some oit" "Current oit = Some row"
       "Idx row < length (filtersSelected (outerTable e'))"
       "filtersSelected (outerTable e') ! Idx row"
       "groupRowsIter (innerTable e') = Some iit'" "Current iit' = Some irow'"
    and t: "\<exists>iit q0 m nl. tryToMatchInners (joiner e) row iit q0 = (None, m, nl, iit', q')"
    by (simp del: split_paired_Ex split_paired_All) blast
  have "mainLoop (Suc (Suc k)) e' q2 =
                (case tryLoop k row e' q2 of
                   None \<Rightarrow> None
                 | Some (Return r, e1, q1) \<Rightarrow> Some (r, e1, q1)
                 | Some (Continue, e1, q1) \<Rightarrow>
                     (case matchLoop k (nextRow e1 oit) (rowOutput e1 row q1) of
                        None \<Rightarrow> None
                      | Some (Return r, e3, q3) \<Rightarrow> Some (r, e3, q3)
                      | Some (Continue, e3, q3) \<Rightarrow> mainLoop (Suc k) e3 q3))"
    if "\<not> IsFull q2" and "compare e' (Some row) irow' = Inr 0" for k q2
    by (rule resume_step [OF a(1,2,5,6) that(2) a(3,4) that(1)])
  with a t show ?thesis by blast
qed


lemma tryLoop_step:
  assumes "groupRowsIter (innerTable e) = Some iit" and "Current iit = Some irow"
    and "tryToMatchInners (joiner e) row iit q = (None, m, nl, iit', q')"
  shows "tryLoop (Suc n) row e q =
           (if IsFull q' then
              (if Current iit' = None then Some (Continue, suspendAt e iit' m nl, q')
               else Some (Return None, suspendAt e iit' m nl, q'))
            else tryLoop n row (suspendAt e iit' m nl) q')"
  using assms by (simp add: tryLoop.simps(2) [unfolded Let_def])

lemma suspend_on_first_row:
  assumes "groupRowsIter (outerTable e) = Some oit" and "Current oit = Some row"
    and "groupRowsIter (innerTable e) = Some iit" and "Current iit = Some irow"
    and "compare e (Some row) irow = Inr 0"
    and "Idx row < length (filtersSelected (outerTable e))"
    and "filtersSelected (outerTable e) ! Idx row"
    and "\<not> IsFull q"
    and "tryToMatchInners (joiner e) row iit q = (None, m, nl, iit', q')"
    and "IsFull q'" and "Current iit' = Some irow'"
  shows "mainLoop (Suc (Suc (Suc n))) e q = Some (None, suspendAt e iit' m nl, q')"
  using resume_step [OF assms(1-8), of "Suc n"] tryLoop_suspend [OF assms(3,4,9,10,11), of n]
  by simp

lemma suspend_on_later_row:
  assumes "groupRowsIter (outerTable e) = Some oit" and "Current oit = Some row"
    and "groupRowsIter (innerTable e) = Some iit" and "Current iit = Some irow"
    and "compare e (Some row) irow = Inr 0"
    and "Idx row < length (filtersSelected (outerTable e))"
    and "filtersSelected (outerTable e) ! Idx row"
    and "\<not> IsFull q"
    and "tryLoop (Suc (Suc n)) row e q = Some (Continue, e1, q1)"
    and "Current (iterNext oit) = Some row2"
    and "Idx row2 < length (filtersSelected (outerTable e))"
    and "filtersSelected (outerTable e) ! Idx row2"
    and "\<not> IsFull (rowOutput e1 row q1)"
    and "groupRowsIter (innerTable e1) = Some it1" and "Current (iterBegin it1) = Some irow1"
    and "tryToMatchInners (joiner e) row2 (iterBegin it1) (rowOutput e1 row q1) =
           (None, m, nl, iit', q')"
    and "IsFull q'" and "Current iit' = Some irow'"
  shows "mainLoop (Suc (Suc (Suc (Suc n)))) e q =
           Some (None, suspendAt (nextRow e1 oit) iit' m nl, q')"
proof -
  note fr = tryLoop_frame [OF assms(9)]
  let ?e2 = "nextRow e1 oit"
  let ?q2 = "rowOutput e1 row q1"
  have t: "tryLoop (Suc n) row2 ?e2 ?q2 = Some (Return None, suspendAt ?e2 iit' m nl, q')"
    by (rule tryLoop_suspend [where iit = "iterBegin it1"])
       (use assms(14-18) fr in simp_all)
  have m: "matchLoop (Suc (Suc n)) ?e2 ?q2 = Some (Return None, suspendAt ?e2 iit' m nl, q')"
    using matchLoop_row [of ?e2 "iterNext oit" row2 ?q2 "Suc n"] assms(10-13) fr t by simp
  show ?thesis
    using resume_step [OF assms(1-8), of "Suc (Suc n)"] assms(9) m by simp
qed

lemma S6_run:
  "runNext 12 3
     (opened (newExec innerJoiner False False 4 [keyRows [2, 2, 2] 100] [keyRows [2] 50]))
     (newChunk 2 2 0) =
     Some [(None, [[Some 2, Some 2], [Some 2, Some 2]]), (None, [[Some 2, Some 2]]), (None, [])]"
  by (simp add: run_simps joinInners.simps)

lemma late_run:
  "runNext 12 3 lateState (newChunk 4 4 0) =
     Some [(None, [[Some 2, Some 10, Some 2, Some 20], [Some 2, Some 10, Some 2, Some 21],
                   [Some 2, Some 10, Some 2, Some 22], [Some 2, Some 11, Some 2, Some 20]]),
           (None, [[Some 2, Some 11, Some 2, Some 21], [Some 2, Some 11, Some 2, Some 22]]),
           (None, [])]"
  by (simp add: lateState_def run_simps joinInners.simps)


text \<open>
  Claim C2. When the matcher fills the output while inner rows of the group are left,
  \<^verbatim>\<open>Next\<close> returns without error and leaves the inner iterator where the matcher
  stopped, the outer iterator on the row being matched and the two flags updated; the
  following call fetches nothing and goes on with the same outer row from that inner
  position. In order: \<^verbatim>\<open>Next\<close> is the main loop on the reset batch; one turn of the
  loop over the inner rows, for every row, state and matcher call; one turn of the loop over
  the outer rows; the main loop with equal keys returns what that loop returns; the
  suspension on the row current at entry; the suspension on the row after it, within the
  same call; every return of \<^verbatim>\<open>nil\<close> from inside the loop over the outer rows, on
  whichever row and after however many matcher calls, has a full batch, the outer iterator
  on a row, the inner iterator where a matcher call on that row left it with rows to go,
  and a following main loop with equal keys starts with the loop over the inner rows on
  that row and that state; scenario S6 (output capacity 2, outer keys [2], inner keys
  [2,2,2], inner join: 2 rows, then 1 row, then none); and a run that suspends on the
  second outer row (capacity 4, two outer rows, three inner rows: 4 rows, then 2, then
  none).
\<close>

theorem suspend_and_resume:
  "(\<forall>n e req. Next n e req = mainLoop n e (Reset req)) \<and>
   (\<forall>n e row q iit irow m nl iit' q'.
      groupRowsIter (innerTable e) = Some iit \<and> Current iit = Some irow \<and>
      tryToMatchInners (joiner e) row iit q = (None, m, nl, iit', q') \<longrightarrow>
      tryLoop (Suc n) row e q =
        (if IsFull q' then
           (if Current iit' = None then Some (Continue, suspendAt e iit' m nl, q')
            else Some (Return None, suspendAt e iit' m nl, q'))
         else tryLoop n row (suspendAt e iit' m nl) q')) \<and>
   (\<forall>n e q oit row.
      groupRowsIter (outerTable e) = Some oit \<and> Current oit = Some row \<and>
      Idx row < length (filtersSelected (outerTable e)) \<and>
      filtersSelected (outerTable e) ! Idx row \<and> \<not> IsFull q \<longrightarrow>
      matchLoop (Suc n) e q =
        (case tryLoop n row e q of
           None \<Rightarrow> None
         | Some (Return r, e1, q1) \<Rightarrow> Some (Return r, e1, q1)
         | Some (Continue, e1, q1) \<Rightarrow> matchLoop n (nextRow e1 oit) (rowOutput e1 row q1))) \<and>
   (\<forall>n e q e1 e2.
      \<not> IsFull q \<and> innerPhase n e = Some (None, e1) \<and> outerPhase e1 q = (Continue, e2) \<and>
      cmpResultOf e2 = Inr 0 \<longrightarrow>
      mainLoop (Suc n) e q =
        (case matchLoop n e2 q of
           None \<Rightarrow> None
         | Some (Return r, e3, q3) \<Rightarrow> Some (r, e3, q3)
         | Some (Continue, e3, q3) \<Rightarrow> mainLoop n e3 q3)) \<and>
   (\<forall>n e q oit row iit irow m nl iit' q' irow'.
      groupRowsIter (outerTable e) = Some oit \<and> Current oit = Some row \<and>
      groupRowsIter (innerTable e) = Some iit \<and> Current iit = Some irow \<and>
      compare e (Some row) irow = Inr 0 \<and>
      Idx row < length (filtersSelected (outerTable e)) \<and>
      filtersSelected (outerTable e) ! Idx row \<and> \<not> IsFull q \<and>
      tryToMatchInners (joiner e) row iit q = (None, m, nl, iit', q') \<and>
      IsFull q' \<and> Current iit' = Some irow' \<longrightarrow>
      mainLoop (Suc (Suc (Suc n))) e q = Some (None, suspendAt e iit' m nl, q')) \<and>
   (\<forall>n e q oit row iit irow eDone qDone rowNext itDone irowFirst m nl iit' q' irow'.
      groupRowsIter (outerTable e) = Some oit \<and> Current oit = Some row \<and>
      groupRowsIter (innerTable e) = Some iit \<and> Current iit = Some irow \<and>
      compare e (Some row) irow = Inr 0 \<and>
      Idx row < length (filtersSelected (outerTable e)) \<and>
      filtersSelected (outerTable e) ! Idx row \<and> \<not> IsFull q \<and>
      tryLoop (Suc (Suc n)) row e q = Some (Continue, eDone, qDone) \<and>
      Current (iterNext oit) = Some rowNext \<and>
      Idx rowNext < length (filtersSelected (outerTable e)) \<and>
      filtersSelected (outerTable e) ! Idx rowNext \<and>
      \<not> IsFull (rowOutput eDone row qDone) \<and>
      groupRowsIter (innerTable eDone) = Some itDone \<and> Current (iterBegin itDone) = Some irowFirst \<and>
      tryToMatchInners (joiner e) rowNext (iterBegin itDone) (rowOutput eDone row qDone) =
        (None, m, nl, iit', q') \<and>
      IsFull q' \<and> Current iit' = Some irow' \<longrightarrow>
      mainLoop (Suc (Suc (Suc (Suc n)))) e q =
        Some (None, suspendAt (nextRow eDone oit) iit' m nl, q')) \<and>
   (\<forall>n e q e' q'.
      matchLoop n e q = Some (Return None, e', q') \<longrightarrow>
      IsFull q' \<and>
      (\<exists>oit row iit' irow'.
         groupRowsIter (outerTable e') = Some oit \<and> Current oit = Some row \<and>
         groupRowsIter (innerTable e') = Some iit' \<and> Current iit' = Some irow' \<and>
         (\<exists>iit q0 m nl. tryToMatchInners (joiner e) row iit q0 = (None, m, nl, iit', q')) \<and>
         (\<forall>k q2. \<not> IsFull q2 \<and> compare e' (Some row) irow' = Inr 0 \<longrightarrow>
            mainLoop (Suc (Suc k)) e' q2 =
              (case tryLoop k row e' q2 of
                        None \<Rightarrow> None
                      | Some (Return r, e1, q1) \<Rightarrow> Some (r, e1, q1)
                      | Some (Continue, e1, q1) \<Rightarrow>
                          (case matchLoop k (nextRow e1 oit) (rowOutput e1 row q1) of
                             None \<Rightarrow> None
                           | Some (Return r, e3, q3) \<Rightarrow> Some (r, e3, q3)
                           | Some (Continue, e3, q3) \<Rightarrow> mainLoop (Suc k) e3 q3))))) \<and>
   runNext 12 3
      (opened (newExec innerJoiner False False 4 [keyRows [2, 2, 2] 100] [keyRows [2] 50]))
      (newChunk 2 2 0) =
      Some [(None, [[Some 2, Some 2], [Some 2, Some 2]]), (None, [[Some 2, Some 2]]), (None, [])] \<and>
   runNext 12 3 lateState (newChunk 4 4 0) =
      Some [(None, [[Some 2, Some 10, Some 2, Some 20], [Some 2, Some 10, Some 2, Some 21],
                    [Some 2, Some 10, Some 2, Some 22], [Some 2, Some 11, Some 2, Some 20]]),
            (None, [[Some 2, Some 11, Some 2, Some 21], [Some 2, Some 11, Some 2, Some 22]]),
            (None, [])]"
proof -
  have c1: "\<forall>n e req. Next n e req = mainLoop n e (Reset req)"
    by (simp add: Next_def)
  have c2: "\<forall>n e row q iit irow m nl iit' q'.
      groupRowsIter (innerTable e) = Some iit \<and> Current iit = Some irow \<and>
      tryToMatchInners (joiner e) row iit q = (None, m, nl, iit', q') \<longrightarrow>
      tryLoop (Suc n) row e q =
        (if IsFull q' then
           (if Current iit' = None then Some (Continue, suspendAt e iit' m nl, q')
            else Some (Return None, suspendAt e iit' m nl, q'))
         else tryLoop n row (suspendAt e iit' m nl) q')"
    by (intro allI impI, elim conjE) (rule tryLoop_step)
  have c3: "\<forall>n e q oit row.
      groupRowsIter (outerTable e) = Some oit \<and> Current oit = Some row \<and>
      Idx row < length (filtersSelected (outerTable e)) \<and>
      filtersSelected (outerTable e) ! Idx row \<and> \<not> IsFull q \<longrightarrow>
      matchLoop (Suc n) e q =
        (case tryLoop n row e q of
           None \<Rightarrow> None
         | Some (Return r, e1, q1) \<Rightarrow> Some (Return r, e1, q1)
         | Some (Continue, e1, q1) \<Rightarrow> matchLoop n (nextRow e1 oit) (rowOutput e1 row q1))"
    by (intro allI impI, elim conjE) (rule matchLoop_row)
  have c4: "\<forall>n e q e1 e2.
      \<not> IsFull q \<and> innerPhase n e = Some (None, e1) \<and> outerPhase e1 q = (Continue, e2) \<and>
      cmpResultOf e2 = Inr 0 \<longrightarrow>
      mainLoop (Suc n) e q =
        (case matchLoop n e2 q of
           None \<Rightarrow> None
         | Some (Return r, e3, q3) \<Rightarrow> Some (r, e3, q3)
         | Some (Continue, e3, q3) \<Rightarrow> mainLoop n e3 q3)"
    by (intro allI impI, elim conjE) (rule mainLoop_equal_keys)
  have c5: "\<forall>n e q oit row iit irow m nl iit' q' irow'.
      groupRowsIter (outerTable e) = Some oit \<and> Current oit = Some row \<and>
      groupRowsIter (innerTable e) = Some iit \<and> Current iit = Some irow \<and>
      compare e (Some row) irow = Inr 0 \<and>
      Idx row < length (filtersSelected (outerTable e)) \<and>
      filtersSelected (outerTable e) ! Idx row \<and> \<not> IsFull q \<and>
      tryToMatchInners (joiner e) row iit q = (None, m, nl, iit', q') \<and>
      IsFull q' \<and> Current iit' = Some irow' \<longrightarrow>
      mainLoop (Suc (Suc (Suc n))) e q = Some (None, suspendAt e iit' m nl, q')"
    by (intro allI impI, elim conjE) (rule suspend_on_first_row)
  have c6: "\<forall>n e q oit row iit irow eDone qDone rowNext itDone irowFirst m nl iit' q' irow'.
      groupRowsIter (outerTable e) = Some oit \<and> Current oit = Some row \<and>
      groupRowsIter (innerTable e) = Some iit \<and> Current iit = Some irow \<and>
      compare e (Some row) irow = Inr 0 \<and>
      Idx row < length (filtersSelected (outerTable e)) \<and>
      filtersSelected (outerTable e) ! Idx row \<and> \<not> IsFull q \<and>
      tryLoop (Suc (Suc n)) row e q = Some (Continue, eDone, qDone) \<and>
      Current (iterNext oit) = Some rowNext \<and>
      Idx rowNext < length (filtersSelected (outerTable e)) \<and>
      filtersSelected (outerTable e) ! Idx rowNext \<and>
      \<not> IsFull (rowOutput eDone row qDone) \<and>
      groupRowsIter (innerTable eDone) = Some itDone \<and> Current (iterBegin itDone) = Some irowFirst \<and>
      tryToMatchInners (joiner e) rowNext (iterBegin itDone) (rowOutput eDone row qDone) =
        (None, m, nl, iit', q') \<and>
      IsFull q' \<and> Current iit' = Some irow' \<longrightarrow>
      mainLoop (Suc (Suc (Suc (Suc n)))) e q =
        Some (None, suspendAt (nextRow eDone oit) iit' m nl, q')"
    by (intro allI impI, elim conjE) (rule suspend_on_later_row)
  have c7: "\<forall>n e q e' q'.
      matchLoop n e q = Some (Return None, e', q') \<longrightarrow>
      IsFull q' \<and>
      (\<exists>oit row iit' irow'.
         groupRowsIter (outerTable e') = Some oit \<and> Current oit = Some row \<and>
         groupRowsIter (innerTable e') = Some iit' \<and> Current iit' = Some irow' \<and>
         (\<exists>iit q0 m nl. tryToMatchInners (joiner e) row iit q0 = (None, m, nl, iit', q')) \<and>
         (\<forall>k q2. \<not> IsFull q2 \<and> compare e' (Some row) irow' = Inr 0 \<longrightarrow>
            mainLoop (Suc (Suc k)) e' q2 =
              (case tryLoop k row e' q2 of
                        None \<Rightarrow> None
                      | Some (Return r, e1, q1) \<Rightarrow> Some (r, e1, q1)
                      | Some (Continue, e1, q1) \<Rightarrow>
                          (case matchLoop k (nextRow e1 oit) (rowOutput e1 row q1) of
                             None \<Rightarrow> None
                           | Some (Return r, e3, q3) \<Rightarrow> Some (r, e3, q3)
                           | Some (Continue, e3, q3) \<Rightarrow> mainLoop (Suc k) e3 q3))))"
  proof (intro allI impI)
    fix n e q e' q'
    assume a: "matchLoop n e q = Some (Return None, e', q')"
    from matchLoop_return_nil [OF a] have "IsFull q'" by simp
    with resume_after_suspension [OF a]
    show "IsFull q' \<and>
      (\<exists>oit row iit' irow'.
         groupRowsIter (outerTable e') = Some oit \<and> Current oit = Some row \<and>
         groupRowsIter (innerTable e') = Some iit' \<and> Current iit' = Some irow' \<and>
         (\<exists>iit q0 m nl. tryToMatchInners (joiner e) row iit q0 = (None, m, nl, iit', q')) \<and>
         (\<forall>k q2. \<not> IsFull q2 \<and> compare e' (Some row) irow' = Inr 0 \<longrightarrow>
            mainLoop (Suc (Suc k)) e' q2 =
              (case tryLoop k row e' q2 of
                        None \<Rightarrow> None
                      | Some (Return r, e1, q1) \<Rightarrow> Some (r, e1, q1)
                      | Some (Continue, e1, q1) \<Rightarrow>
                          (case matchLoop k (nextRow e1 oit) (rowOutput e1 row q1) of
                             None \<Rightarrow> None
                           | Some (Return r, e3, q3) \<Rightarrow> Some (r, e3, q3)
                           | Some (Continue, e3, q3) \<Rightarrow> mainLoop (Suc k) e3 q3))))"
      by (intro conjI)
  qed
  show ?thesis
    apply (intro conjI)
            apply (rule c1)
           apply (rule c2)
          apply (rule c3)
         apply (rule c4)
        apply (rule c5)
       apply (rule c6)
      apply (rule c7)
     apply (rule S6_run)
    apply (rule late_run)
    done
qed


theorem suspend_and_resume_witness:
  "groupRowsIter (outerTable midState) = Some \<lparr>it_rows = [(0, [Some 2])], it_pos = 0\<rparr> \<and>
   groupRowsIter (innerTable midState) =
     Some \<lparr>it_rows = [(0, [Some 2]), (1, [Some 2]), (2, [Some 2])], it_pos = 0\<rparr> \<and>
   compare midState (Some (0, [Some 2])) (0, [Some 2]) = Inr 0 \<and>
   filtersSelected (outerTable midState) = [True] \<and>
   \<not> IsFull (newChunk 2 2 0) \<and>
   tryToMatchInners (joiner midState) (0, [Some 2])
     \<lparr>it_rows = [(0, [Some 2]), (1, [Some 2]), (2, [Some 2])], it_pos = 0\<rparr> (newChunk 2 2 0) =
     (None, True, False, \<lparr>it_rows = [(0, [Some 2]), (1, [Some 2]), (2, [Some 2])], it_pos = 2\<rparr>,
      (newChunk 2 2 0)\<lparr>c_rows := [[Some 2, Some 2], [Some 2, Some 2]]\<rparr>) \<and>
   IsFull ((newChunk 2 2 0)\<lparr>c_rows := [[Some 2, Some 2], [Some 2, Some 2]]\<rparr>) \<and>
   mainLoop (Suc (Suc (Suc 0))) midState (newChunk 2 2 0) =
     Some (None,
           midState\<lparr>innerTable := (innerTable midState)
                       \<lparr>groupRowsIter :=
                          Some \<lparr>it_rows = [(0, [Some 2]), (1, [Some 2]), (2, [Some 2])], it_pos = 2\<rparr>\<rparr>,
                    hasMatch := True, hasNull := False\<rparr>,
           (newChunk 2 2 0)\<lparr>c_rows := [[Some 2, Some 2], [Some 2, Some 2]]\<rparr>) \<and>
   groupRowsIter (outerTable lateMid) = Some \<lparr>it_rows = [(0, [Some 2, Some 10]), (1, [Some 2, Some 11])], it_pos = 0\<rparr> \<and>
   groupRowsIter (innerTable lateMid) = Some \<lparr>it_rows = [(0, [Some 2, Some 20]), (1, [Some 2, Some 21]), (2, [Some 2, Some 22])], it_pos = 0\<rparr> \<and>
   compare lateMid (Some (0, [Some 2, Some 10])) (0, [Some 2, Some 20]) = Inr 0 \<and>
   filtersSelected (outerTable lateMid) = [True, True] \<and>
   \<not> IsFull (newChunk 4 4 0) \<and>
   tryLoop (Suc (Suc 0)) (0, [Some 2, Some 10]) lateMid (newChunk 4 4 0) =
     Some (Continue,
           lateMid\<lparr>innerTable := (innerTable lateMid)\<lparr>groupRowsIter := Some \<lparr>it_rows = [(0, [Some 2, Some 20]), (1, [Some 2, Some 21]), (2, [Some 2, Some 22])], it_pos = 3\<rparr>\<rparr>,
                   hasMatch := True, hasNull := False\<rparr>,
           (newChunk 4 4 0)\<lparr>c_rows := [[Some 2, Some 10, Some 2, Some 20], [Some 2, Some 10, Some 2, Some 21],
        [Some 2, Some 10, Some 2, Some 22]]\<rparr>) \<and>
   tryToMatchInners (joiner lateMid) (1, [Some 2, Some 11]) \<lparr>it_rows = [(0, [Some 2, Some 20]), (1, [Some 2, Some 21]), (2, [Some 2, Some 22])], it_pos = 0\<rparr>
     ((newChunk 4 4 0)\<lparr>c_rows := [[Some 2, Some 10, Some 2, Some 20], [Some 2, Some 10, Some 2, Some 21],
        [Some 2, Some 10, Some 2, Some 22]]\<rparr>) =
     (None, True, False, \<lparr>it_rows = [(0, [Some 2, Some 20]), (1, [Some 2, Some 21]), (2, [Some 2, Some 22])], it_pos = 1\<rparr>, (newChunk 4 4 0)\<lparr>c_rows := [[Some 2, Some 10, Some 2, Some 20], [Some 2, Some 10, Some 2, Some 21],
        [Some 2, Some 10, Some 2, Some 22], [Some 2, Some 11, Some 2, Some 20]]\<rparr>) \<and>
   IsFull ((newChunk 4 4 0)\<lparr>c_rows := [[Some 2, Some 10, Some 2, Some 20], [Some 2, Some 10, Some 2, Some 21],
        [Some 2, Some 10, Some 2, Some 22], [Some 2, Some 11, Some 2, Some 20]]\<rparr>) \<and>
   mainLoop (Suc (Suc (Suc (Suc 0)))) lateMid (newChunk 4 4 0) =
     Some (None,
           lateMid\<lparr>innerTable := (innerTable lateMid)\<lparr>groupRowsIter := Some \<lparr>it_rows = [(0, [Some 2, Some 20]), (1, [Some 2, Some 21]), (2, [Some 2, Some 22])], it_pos = 1\<rparr>\<rparr>,
                   outerTable := (outerTable lateMid)\<lparr>groupRowsIter := Some \<lparr>it_rows = [(0, [Some 2, Some 10]), (1, [Some 2, Some 11])], it_pos = 1\<rparr>\<rparr>,
                   hasMatch := True, hasNull := False\<rparr>,
           (newChunk 4 4 0)\<lparr>c_rows := [[Some 2, Some 10, Some 2, Some 20], [Some 2, Some 10, Some 2, Some 21],
        [Some 2, Some 10, Some 2, Some 22], [Some 2, Some 11, Some 2, Some 20]]\<rparr>) \<and>
   matchLoop (Suc (Suc (Suc 0))) lateMid (newChunk 4 4 0) =
     Some (Return None,
           lateMid\<lparr>innerTable := (innerTable lateMid)\<lparr>groupRowsIter := Some \<lparr>it_rows = [(0, [Some 2, Some 20]), (1, [Some 2, Some 21]), (2, [Some 2, Some 22])], it_pos = 1\<rparr>\<rparr>,
                   outerTable := (outerTable lateMid)\<lparr>groupRowsIter := Some \<lparr>it_rows = [(0, [Some 2, Some 10]), (1, [Some 2, Some 11])], it_pos = 1\<rparr>\<rparr>,
                   hasMatch := True, hasNull := False\<rparr>,
           (newChunk 4 4 0)\<lparr>c_rows := [[Some 2, Some 10, Some 2, Some 20], [Some 2, Some 10, Some 2, Some 21],
        [Some 2, Some 10, Some 2, Some 22], [Some 2, Some 11, Some 2, Some 20]]\<rparr>) \<and>
   innerPhase 6 lateState = Some (None, lateIn) \<and>
   outerPhase lateIn (newChunk 4 4 0) = (Continue, lateMid) \<and>
   cmpResultOf lateMid = Inr 0 \<and>
   Next (Suc 6) lateState (newChunk 4 4 0) =
     Some (None,
           lateMid\<lparr>innerTable := (innerTable lateMid)\<lparr>groupRowsIter := Some \<lparr>it_rows = [(0, [Some 2, Some 20]), (1, [Some 2, Some 21]), (2, [Some 2, Some 22])], it_pos = 1\<rparr>\<rparr>,
                   outerTable := (outerTable lateMid)\<lparr>groupRowsIter := Some \<lparr>it_rows = [(0, [Some 2, Some 10]), (1, [Some 2, Some 11])], it_pos = 1\<rparr>\<rparr>,
                   hasMatch := True, hasNull := False\<rparr>,
           (newChunk 4 4 0)\<lparr>c_rows := [[Some 2, Some 10, Some 2, Some 20], [Some 2, Some 10, Some 2, Some 21],
        [Some 2, Some 10, Some 2, Some 22], [Some 2, Some 11, Some 2, Some 20]]\<rparr>) \<and>
   compare (lateMid\<lparr>innerTable := (innerTable lateMid)\<lparr>groupRowsIter := Some \<lparr>it_rows = [(0, [Some 2, Some 20]), (1, [Some 2, Some 21]), (2, [Some 2, Some 22])], it_pos = 1\<rparr>\<rparr>,
                   outerTable := (outerTable lateMid)\<lparr>groupRowsIter := Some \<lparr>it_rows = [(0, [Some 2, Some 10]), (1, [Some 2, Some 11])], it_pos = 1\<rparr>\<rparr>,
                   hasMatch := True, hasNull := False\<rparr>)
     (Some (1, [Some 2, Some 11])) (1, [Some 2, Some 21]) = Inr 0 \<and>
   map_option (\<lambda>(r, e, req). (r, c_rows req))
     (mainLoop (Suc (Suc 4))
        (lateMid\<lparr>innerTable := (innerTable lateMid)\<lparr>groupRowsIter := Some \<lparr>it_rows = [(0, [Some 2, Some 20]), (1, [Some 2, Some 21]), (2, [Some 2, Some 22])], it_pos = 1\<rparr>\<rparr>,
                   outerTable := (outerTable lateMid)\<lparr>groupRowsIter := Some \<lparr>it_rows = [(0, [Some 2, Some 10]), (1, [Some 2, Some 11])], it_pos = 1\<rparr>\<rparr>,
                   hasMatch := True, hasNull := False\<rparr>)
        (newChunk 4 4 0)) =
     Some (None, [[Some 2, Some 11, Some 2, Some 21], [Some 2, Some 11, Some 2, Some 22]])"
proof -
  note T = suspend_and_resume
  note first = T [THEN conjunct2, THEN conjunct2, THEN conjunct2, THEN conjunct2, THEN conjunct1,
                  rule_format]
  note later = T [THEN conjunct2, THEN conjunct2, THEN conjunct2, THEN conjunct2, THEN conjunct2,
                  THEN conjunct1, rule_format]
  note outer = T [THEN conjunct2, THEN conjunct2, THEN conjunct1, rule_format]
  let ?oit = "\<lparr>it_rows = [(0, [Some (2::int)])], it_pos = 0\<rparr>"
  let ?iit = "\<lparr>it_rows = [(0, [Some (2::int)]), (1, [Some 2]), (2, [Some 2])], it_pos = 0\<rparr>"
  let ?iit' = "\<lparr>it_rows = [(0, [Some (2::int)]), (1, [Some 2]), (2, [Some 2])], it_pos = 2\<rparr>"
  let ?q' = "(newChunk 2 2 0)\<lparr>c_rows := [[Some 2, Some 2], [Some 2, Some 2]]\<rparr>"
  have h1: "groupRowsIter (outerTable midState) = Some ?oit"
    by (simp add: midState_def run_simps)
  have h2: "Current ?oit = Some (0, [Some 2])"
    by (simp add: Current_def)
  have h3: "groupRowsIter (innerTable midState) = Some ?iit"
    by (simp add: midState_def run_simps)
  have h4: "Current ?iit = Some (0, [Some 2])"
    by (simp add: Current_def)
  have k: "joinKeys (outerTable midState) = [0]" "joinKeys (innerTable midState) = [0]"
    "compareFuncs midState = [cmpInt]" "joiner midState = innerJoiner"
    "hasMatch midState = False" "hasNull midState = False"
    by (simp_all add: midState_def run_simps)
  have h5: "compare midState (Some (0, [Some 2])) (0, [Some 2]) = Inr 0"
    by (simp add: compare_def k cmpInt_def cmpDatum_def)
  have h6: "filtersSelected (outerTable midState) = [True]"
    by (simp add: midState_def run_simps)
  have h8: "\<not> IsFull (newChunk 2 2 0)"
    by (simp add: chunk_defs)
  have h9: "tryToMatchInners (joiner midState) (0, [Some 2]) ?iit (newChunk 2 2 0) =
              (None, True, False, ?iit', ?q')"
    by (simp add: k innerJoiner_def tryMatchAll_def joinInners.simps chunk_defs iter_defs)
  have h10: "IsFull ?q'"
    by (simp add: chunk_defs)
  have h11: "Current ?iit' = Some (2, [Some 2])"
    by (simp add: Current_def)
  have A: "mainLoop (Suc (Suc (Suc 0))) midState (newChunk 2 2 0) =
          Some (None,
                midState\<lparr>innerTable := (innerTable midState)\<lparr>groupRowsIter := Some ?iit'\<rparr>,
                         hasMatch := True, hasNull := False\<rparr>, ?q')"
    using first [where e = midState and oit = ?oit and row = "(0, [Some 2])" and iit = ?iit
        and irow = "(0, [Some 2])" and q = "newChunk 2 2 0" and m = True and nl = False
        and iit' = ?iit' and q' = ?q' and irow' = "(2, [Some 2])" and n = 0]
      h1 h2 h3 h4 h5 h6 h8 h9 h10 h11 k
    by (simp add: Idx_def)
  let ?o0 = "\<lparr>it_rows = [(0, [Some 2, Some 10]), (1, [Some 2, Some 11])], it_pos = 0\<rparr>"
  let ?o1 = "\<lparr>it_rows = [(0, [Some 2, Some 10]), (1, [Some 2, Some 11])], it_pos = 1\<rparr>"
  let ?i0 = "\<lparr>it_rows = [(0, [Some 2, Some 20]), (1, [Some 2, Some 21]), (2, [Some 2, Some 22])], it_pos = 0\<rparr>"
  let ?i1 = "\<lparr>it_rows = [(0, [Some 2, Some 20]), (1, [Some 2, Some 21]), (2, [Some 2, Some 22])], it_pos = 1\<rparr>"
  let ?i3 = "\<lparr>it_rows = [(0, [Some 2, Some 20]), (1, [Some 2, Some 21]), (2, [Some 2, Some 22])], it_pos = 3\<rparr>"
  let ?q0 = "newChunk 4 4 0"
  let ?q3 = "(newChunk 4 4 0)\<lparr>c_rows := [[Some 2, Some 10, Some 2, Some 20], [Some 2, Some 10, Some 2, Some 21],
        [Some 2, Some 10, Some 2, Some 22]]\<rparr>"
  let ?q4 = "(newChunk 4 4 0)\<lparr>c_rows := [[Some 2, Some 10, Some 2, Some 20], [Some 2, Some 10, Some 2, Some 21],
        [Some 2, Some 10, Some 2, Some 22], [Some 2, Some 11, Some 2, Some 20]]\<rparr>"
  let ?e1 = "lateMid\<lparr>innerTable := (innerTable lateMid)\<lparr>groupRowsIter := Some ?i3\<rparr>,
                    hasMatch := True, hasNull := False\<rparr>"
  let ?e2 = "lateMid\<lparr>innerTable := (innerTable lateMid)\<lparr>groupRowsIter := Some ?i1\<rparr>,
                   outerTable := (outerTable lateMid)\<lparr>groupRowsIter := Some ?o1\<rparr>,
                   hasMatch := True, hasNull := False\<rparr>"
  have g1: "groupRowsIter (outerTable lateMid) = Some ?o0"
    by (simp add: lateMid_def lateIn_def lateState_def run_simps)
  have g2: "Current ?o0 = Some (0, [Some 2, Some 10])"
    by (simp add: Current_def)
  have g3: "groupRowsIter (innerTable lateMid) = Some ?i0"
    by (simp add: lateMid_def lateIn_def lateState_def run_simps)
  have g4: "Current ?i0 = Some (0, [Some 2, Some 20])"
    by (simp add: Current_def)
  have l: "joinKeys (outerTable lateMid) = [0]" "joinKeys (innerTable lateMid) = [0]"
    "compareFuncs lateMid = [cmpInt]" "joiner lateMid = innerJoiner"
    "hasMatch lateMid = False" "hasNull lateMid = False"
    by (simp_all add: lateMid_def lateIn_def lateState_def run_simps)
  have g5: "compare lateMid (Some (0, [Some 2, Some 10])) (0, [Some 2, Some 20]) = Inr 0"
    by (simp add: compare_def l cmpInt_def cmpDatum_def)
  have g6: "filtersSelected (outerTable lateMid) = [True, True]"
    by (simp add: lateMid_def lateIn_def lateState_def run_simps)
  have g8: "\<not> IsFull ?q0"
    by (simp add: chunk_defs)
  have g9: "tryLoop (Suc (Suc 0)) (0, [Some 2, Some 10]) lateMid ?q0 = Some (Continue, ?e1, ?q3)"
    by (simp add: tryLoop.simps(2) [unfolded Let_def] g3 l innerJoiner_def tryMatchAll_def
          joinInners.simps chunk_defs iter_defs)
  have g10: "Current (iterNext ?o0) = Some (1, [Some 2, Some 11])"
    by (simp add: iter_defs)
  have g11: "\<not> IsFull ?q3"
    by (simp add: chunk_defs)
  have g12: "iterBegin ?i3 = ?i0"
    by (simp add: iter_defs)
  have g13: "tryToMatchInners (joiner lateMid) (1, [Some 2, Some 11]) ?i0 ?q3 =
               (None, True, False, ?i1, ?q4)"
    by (simp add: l innerJoiner_def tryMatchAll_def joinInners.simps chunk_defs iter_defs)
  have g14: "IsFull ?q4"
    by (simp add: chunk_defs)
  have g15: "Current ?i1 = Some (1, [Some 2, Some 21])"
    by (simp add: Current_def)
  have g16: "iterNext ?o0 = ?o1"
    by (simp add: iter_defs)
  have B: "mainLoop (Suc (Suc (Suc (Suc 0)))) lateMid ?q0 = Some (None, ?e2, ?q4)"
    using later [where e = lateMid and oit = ?o0 and row = "(0, [Some 2, Some 10])"
        and iit = ?i0 and irow = "(0, [Some 2, Some 20])" and q = ?q0 and eDone = ?e1 and qDone = ?q3
        and rowNext = "(1, [Some 2, Some 11])" and itDone = ?i3
        and irowFirst = "(0, [Some 2, Some 20])"
        and m = True and nl = False and iit' = ?i1 and q' = ?q4
        and irow' = "(1, [Some 2, Some 21])" and n = 0]
      g1 g2 g3 g4 g5 g6 g8 g9 g10 g11 g12 g13 g14 g15 g16 l
    by (simp add: Idx_def)
  have g17: "tryLoop (Suc 0) (1, [Some 2, Some 11])
               (lateMid\<lparr>hasMatch := False, hasNull := False,
                        innerTable := (innerTable lateMid)\<lparr>groupRowsIter := Some ?i0\<rparr>,
                        outerTable := (outerTable lateMid)\<lparr>groupRowsIter := Some ?o1\<rparr>\<rparr>) ?q3 =
             Some (Return None, ?e2, ?q4)"
    using g13 g14 g15 l
    by (simp add: tryLoop.simps(2) [unfolded Let_def] Current_def)
  have C: "matchLoop (Suc (Suc (Suc 0))) lateMid ?q0 = Some (Return None, ?e2, ?q4)"
    using outer [where e = lateMid and oit = ?o0 and row = "(0, [Some 2, Some 10])" and q = ?q0
        and n = "Suc (Suc 0)"]
      outer [where e = "lateMid\<lparr>hasMatch := False, hasNull := False,
                        innerTable := (innerTable lateMid)\<lparr>groupRowsIter := Some ?i0\<rparr>,
                        outerTable := (outerTable lateMid)\<lparr>groupRowsIter := Some ?o1\<rparr>\<rparr>"
        and oit = ?o1 and row = "(1, [Some 2, Some 11])" and q = ?q3 and n = "Suc 0"]
      g1 g2 g6 g8 g9 g10 g11 g12 g16 g17 l
    by (simp add: Idx_def innerJoiner_def)
  note nxt = T [THEN conjunct1, rule_format]
  note lift = T [THEN conjunct2, THEN conjunct2, THEN conjunct2, THEN conjunct1, rule_format]
  note every = T [THEN conjunct2, THEN conjunct2, THEN conjunct2, THEN conjunct2, THEN conjunct2,
                  THEN conjunct2, THEN conjunct1, rule_format]
  have p1: "innerPhase 6 lateState = Some (None, lateIn)"
    by (simp add: lateIn_def lateState_def run_simps)
  have p2: "outerPhase lateIn ?q0 = (Continue, lateMid)"
    by (simp add: lateMid_def lateIn_def lateState_def run_simps)
  have p3: "cmpResultOf lateMid = Inr 0"
    using g1 g2 g3 g4 g5 by (simp add: cmpResultOf_def)
  have g9': "tryLoop 5 (0, [Some 2, Some 10]) lateMid ?q0 = Some (Continue, ?e1, ?q3)"
    by (simp add: tryLoop_num g3 l innerJoiner_def tryMatchAll_def
          joinInners.simps chunk_defs iter_defs)
  have g17': "tryLoop 4 (1, [Some 2, Some 11])
               (lateMid\<lparr>hasMatch := False, hasNull := False,
                        innerTable := (innerTable lateMid)\<lparr>groupRowsIter := Some ?i0\<rparr>,
                        outerTable := (outerTable lateMid)\<lparr>groupRowsIter := Some ?o1\<rparr>\<rparr>) ?q3 =
             Some (Return None, ?e2, ?q4)"
    using g13 g14 g15 l
    by (simp add: tryLoop_num Current_def)
  have C': "matchLoop 6 lateMid ?q0 = Some (Return None, ?e2, ?q4)"
    using outer [where e = lateMid and oit = ?o0 and row = "(0, [Some 2, Some 10])" and q = ?q0
        and n = 5]
      outer [where e = "lateMid\<lparr>hasMatch := False, hasNull := False,
                        innerTable := (innerTable lateMid)\<lparr>groupRowsIter := Some ?i0\<rparr>,
                        outerTable := (outerTable lateMid)\<lparr>groupRowsIter := Some ?o1\<rparr>\<rparr>"
        and oit = ?o1 and row = "(1, [Some 2, Some 11])" and q = ?q3 and n = 4]
      g1 g2 g6 g8 g9' g10 g11 g12 g16 g17' l
    by (simp add: Idx_def innerJoiner_def)
  have D: "Next (Suc 6) lateState ?q0 = Some (None, ?e2, ?q4)"
    using nxt [of "Suc 6" lateState ?q0]
      lift [where n = 6 and e = lateState and q = ?q0 and ?e1.0 = lateIn and ?e2.0 = lateMid]
      g8 p1 p2 p3 C'
    by (simp add: Reset_def newChunk_def)
  have g18: "compare ?e2 (Some (1, [Some 2, Some 11])) (1, [Some 2, Some 21]) = Inr 0"
    by (simp add: compare_def l cmpInt_def cmpDatum_def)
  from every [OF C] obtain oit row iit' irow' where
    f: "groupRowsIter (outerTable ?e2) = Some oit" "Current oit = Some row"
       "groupRowsIter (innerTable ?e2) = Some iit'" "Current iit' = Some irow'"
    and R: "\<forall>k q2. \<not> IsFull q2 \<and> compare ?e2 (Some row) irow' = Inr 0 \<longrightarrow>
            mainLoop (Suc (Suc k)) ?e2 q2 =
              (case tryLoop k row ?e2 q2 of
                      None \<Rightarrow> None
                    | Some (Return r, e1, q1) \<Rightarrow> Some (r, e1, q1)
                    | Some (Continue, e1, q1) \<Rightarrow>
                        (case matchLoop k (nextRow e1 oit) (rowOutput e1 row q1) of
                           None \<Rightarrow> None
                         | Some (Return r, e3, q3) \<Rightarrow> Some (r, e3, q3)
                         | Some (Continue, e3, q3) \<Rightarrow> mainLoop (Suc k) e3 q3))"
    by (elim conjE exE) (rule that)
  have o: "oit = ?o1" "iit' = ?i1" using f(1,3) by simp_all
  have ro: "row = (1, [Some 2, Some 11])" "irow' = (1, [Some 2, Some 21])"
    using f(2,4) g15 unfolding o by (simp_all add: Current_def)
  have E0: "mainLoop (Suc (Suc 4)) ?e2 ?q0 =
              (case tryLoop 4 (1, [Some 2, Some 11]) ?e2 ?q0 of
                      None \<Rightarrow> None
                    | Some (Return r, e1, q1) \<Rightarrow> Some (r, e1, q1)
                    | Some (Continue, e1, q1) \<Rightarrow>
                        (case matchLoop 4 (nextRow e1 ?o1) (rowOutput e1 (1, [Some 2, Some 11]) q1) of
                           None \<Rightarrow> None
                         | Some (Return r, e3, q3) \<Rightarrow> Some (r, e3, q3)
                         | Some (Continue, e3, q3) \<Rightarrow> mainLoop (Suc 4) e3 q3))"
    using R [rule_format, of ?q0 4] g8 g18 unfolding o ro by simp
  have E1: "map_option (\<lambda>(r, e, req). (r, c_rows req))
              (case tryLoop 4 (1, [Some 2, Some 11]) ?e2 ?q0 of
                      None \<Rightarrow> None
                    | Some (Return r, e1, q1) \<Rightarrow> Some (r, e1, q1)
                    | Some (Continue, e1, q1) \<Rightarrow>
                        (case matchLoop 4 (nextRow e1 ?o1) (rowOutput e1 (1, [Some 2, Some 11]) q1) of
                           None \<Rightarrow> None
                         | Some (Return r, e3, q3) \<Rightarrow> Some (r, e3, q3)
                         | Some (Continue, e3, q3) \<Rightarrow> mainLoop (Suc 4) e3 q3)) =
            Some (None, [[Some 2, Some 11, Some 2, Some 21], [Some 2, Some 11, Some 2, Some 22]])"
    by (simp add: lateMid_def lateIn_def lateState_def run_simps joinInners.simps)
  have E: "map_option (\<lambda>(r, e, req). (r, c_rows req)) (mainLoop (Suc (Suc 4)) ?e2 ?q0) =
            Some (None, [[Some 2, Some 11, Some 2, Some 21], [Some 2, Some 11, Some 2, Some 22]])"
    unfolding E0 by (rule E1)
  from h1 h3 h5 h6 h8 h9 h10 A g1 g3 g5 g6 g8 g9 g13 g14 B C p1 p2 p3 D g18 E
  show ?thesis by (intro conjI)
qed


section \<open>The counters after \<^verbatim>\<open>Close\<close>\<close>

text \<open>\<^verbatim>\<open>Consume\<close> on the counters of the ledger.\<close>

lemma parentOf_Consume [simp]: "parentOf (Consume r n st) = parentOf st"
  by (simp add: Consume_def)

lemma Consume_table:
  assumes "tree (parentOf st)"
  shows "bytesOf (Consume (TableMem s) n st) =
           (bytesOf st)(TableMem s := bytesOf st (TableMem s) + n,
                        ExecMem := bytesOf st ExecMem + n, StmtMem := bytesOf st StmtMem + n)"
  using assms by (cases s) (simp_all add: Consume_def tree_def)

lemma Consume_storeMem:
  assumes "tree (parentOf st)"
  shows "bytesOf (Consume (StoreMem InnerSlot) n st) =
           (bytesOf st)(StoreMem InnerSlot := bytesOf st (StoreMem InnerSlot) + n,
                        ExecMem := bytesOf st ExecMem + n, StmtMem := bytesOf st StmtMem + n)"
  using assms by (simp add: Consume_def tree_def)

lemma Consume_storeDisk:
  assumes "tree (parentOf st)"
  shows "bytesOf (Consume (StoreDisk InnerSlot) n st) =
           (bytesOf st)(StoreDisk InnerSlot := bytesOf st (StoreDisk InnerSlot) + n,
                        ExecDisk := bytesOf st ExecDisk + n, StmtDisk := bytesOf st StmtDisk + n)"
  using assms by (simp add: Consume_def tree_def)

lemma sideLedger_update [simp]:
  "sideLedger (t\<lparr>groupRowsIter := a\<rparr>) = sideLedger t"
  "sideLedger (t\<lparr>groupChecker := b\<rparr>) = sideLedger t"
  "sideLedger (t\<lparr>filtersSelected := c\<rparr>) = sideLedger t"
  "sideLedger (t\<lparr>groupRowsSelected := d\<rparr>) = sideLedger t"
  "sideLedger (t\<lparr>executed := f\<rparr>) = sideLedger t"
  "sideLedger (t\<lparr>childChunkIter := g\<rparr>) = sideLedger t"
  by (simp_all add: sideLedger_def footprint_def)

lemma sideLedger_chunk [simp]:
  "childChunk t = Some c \<Longrightarrow> sideLedger (t\<lparr>childChunk := Some (SetSel c x)\<rparr>) = sideLedger t"
  "childChunk t = Some c \<Longrightarrow>
     sideLedger (t\<lparr>childChunk := Some (SetRequiredRows c k mx)\<rparr>) = sideLedger t"
  by (simp_all add: sideLedger_def footprint_def SetSel_def SetRequiredRows_def MemoryUsage_def)

lemma accounted_ledger: "ledger e' = ledger e \<Longrightarrow> accounted m0 d0 e' = accounted m0 d0 e"
  by (auto simp: ledger_def sideLedger_def accounted_def sideOk_def storeOk_def split: option.splits)

lemma ledger_selectNextGroup: "ledger (snd (selectNextGroup s e)) = ledger e"
  by (cases s)
     (simp_all add: ledger_def selectNextGroup_def Let_def tbl_def setTbl_def
        split: option.splits prod.splits sum.splits bool.splits)

lemma ledger_setTbl_iter [simp]:
  "ledger (setTbl s ((tbl s e)\<lparr>groupRowsIter := x\<rparr>) e) = ledger e"
  by (cases s) (simp_all add: ledger_def tbl_def setTbl_def)

lemma accounted_fetchNextChunk:
  assumes "accounted m0 d0 e"
  shows "accounted m0 d0 (snd (fetchNextChunk s e))"
  using assms
  by (cases s)
     (auto simp: accounted_def fetchNextChunk_def Let_def tbl_def setTbl_def sideOk_def storeOk_def
        footprint_def Consume_table balanced_def
        split: option.splits prod.splits)

lemma accounted_handOver:
  assumes "accounted m0 d0 e"
  shows "accounted m0 d0 (snd (handOver InnerSlot e))"
  using assms
  by (auto simp: accounted_def handOver_def rcAdd_def Let_def tbl_def setTbl_def sideOk_def
        storeOk_def footprint_def Consume_table Consume_storeMem Consume_storeDisk balanced_def
        AllocChunk_def newChunk_def MemoryUsage_def
        split: option.splits prod.splits if_splits)

lemma accounted_selectNextGroup:
  "accounted m0 d0 (snd (selectNextGroup s e)) = accounted m0 d0 e"
  by (rule accounted_ledger) (rule ledger_selectNextGroup)

lemma accounted_skipLoop:
  "skipLoop n s b e = Some (r, b', e') \<Longrightarrow> accounted m0 d0 e \<Longrightarrow> accounted m0 d0 e'"
proof (induction n arbitrary: b e)
  case 0
  then show ?case by simp
next
  case (Suc n)
  show ?case
  proof (cases "b \<and> (\<exists>g. groupChecker (tbl s e) = Some g \<and> \<not> isExhausted g)")
    case False
    then have "e' = e"
      using Suc.prems(1) by (auto simp: skipLoop.simps(2) split: option.splits if_splits)
    then show ?thesis using Suc.prems(2) by simp
  next
    case True
    obtain r1 e1 where s1: "selectNextGroup s e = (r1, e1)" by (cases "selectNextGroup s e")
    have a1: "accounted m0 d0 e1"
      using accounted_selectNextGroup [of m0 d0 s e] s1 Suc.prems(2) by simp
    show ?thesis
    proof (cases r1)
      case None
      then have "skipLoop n s (lenSel (groupRowsSelected (tbl s e1)) = 0) e1 = Some (r, b', e')"
        using Suc.prems(1) True s1 by (auto simp: skipLoop.simps(2))
      then show ?thesis using Suc.IH a1 by blast
    next
      case (Some err)
      then have "e' = e1"
        using Suc.prems(1) True s1 by (auto simp: skipLoop.simps(2))
      then show ?thesis using a1 by simp
    qed
  qed
qed

lemma accounted_groupChecker_update:
  "accounted m0 d0 (setTbl s ((tbl s e)\<lparr>groupChecker := x\<rparr>) e) = accounted m0 d0 e"
  by (rule accounted_ledger)
     (cases s; simp add: ledger_def tbl_def setTbl_def)

lemmas accounted_steps =
  accounted_handOver accounted_fetchNextChunk accounted_selectNextGroup accounted_groupChecker_update

lemma accounted_accumLoop:
  "accumLoop n InnerSlot b e = Some (r, e') \<Longrightarrow> accounted m0 d0 e \<Longrightarrow> accounted m0 d0 e'"
proof (induction n arbitrary: e)
  case 0
  then show ?case by simp
next
  case (Suc n)
  have IH: "accounted m0 d0 e'" if "accumLoop n InnerSlot c x = Some (r, e')"
    and "accounted m0 d0 x" and "c = b" for c x
    using Suc.IH that by simp
  from Suc.prems show ?case
    unfolding accumLoop.simps(2) Let_def
    by (auto split: option.splits prod.splits if_splits
          simp: prod_eq_iff accounted_steps elim!: IH)
qed

lemma accounted_assemble: "accounted m0 d0 (snd (assemble s e)) = accounted m0 d0 e"
  by (rule accounted_ledger)
     (cases s; simp add: assemble_def Let_def ledger_def tbl_def setTbl_def
        split: option.splits)

lemma accounted_fetchLoop:
  "fetchLoop n InnerSlot e = Some (r, e') \<Longrightarrow> accounted m0 d0 e \<Longrightarrow> accounted m0 d0 e'"
proof (induction n arbitrary: e)
  case 0
  then show ?case by simp
next
  case (Suc n)
  have sk: "accounted m0 d0 x'" if "skipLoop n InnerSlot c x = Some (q, c', x')"
    and "accounted m0 d0 x" for c x q c' x'
    using accounted_skipLoop that by blast
  have ac: "accounted m0 d0 x'" if "accumLoop n InnerSlot c x = Some (q, x')"
    and "accounted m0 d0 x" for c x q x'
    using accounted_accumLoop that by blast
  have asm: "accounted m0 d0 x'" if "assemble InnerSlot x = (q, x')"
    and "accounted m0 d0 x" for x q x'
    using accounted_assemble [of m0 d0 InnerSlot x] that by simp
  have it: "accounted m0 d0 (setTbl InnerSlot ((tbl InnerSlot e)\<lparr>groupRowsIter := x\<rparr>) e)" for x
    using Suc.prems(2) accounted_ledger [OF ledger_setTbl_iter] by blast
  from Suc.prems show ?case
    unfolding fetchLoop.simps(2) Let_def
    by (auto split: option.splits prod.splits if_splits
          simp: it dest!: sk ac asm elim!: Suc.IH)
qed

lemma accounted_resetStore:
  assumes "accounted m0 d0 e" and "childChunk (innerTable e) = Some c"
    and "rowContainer (innerTable e) = Some rc"
    and "rcReset rc (diskFaulty e) (trk e) = (r, rc', st')"
  shows "accounted m0 d0
           (setTbl InnerSlot ((innerTable e)\<lparr>childChunk := Some (SetSel c None), rowContainer := Some rc'\<rparr>)
              (e\<lparr>trk := st'\<rparr>))"
  using assms
  by (auto simp: accounted_def rcReset_def Let_def setTbl_def sideOk_def storeOk_def
        footprint_def Consume_storeMem Consume_storeDisk balanced_def SetSel_def MemoryUsage_def
        split: if_splits)

lemma accounted_fetchNextInnerGroup:
  assumes "fetchNextInnerGroup n InnerSlot e = Some (r, e')" and "accounted m0 d0 e"
  shows "accounted m0 d0 e'"
proof -
  obtain c where c: "childChunk (innerTable e) = Some c"
    using assms(2) by (auto simp: accounted_def sideOk_def)
  obtain rc where rc: "rowContainer (innerTable e) = Some rc"
    using assms(2) by (auto simp: accounted_def storeOk_def split: option.splits)
  obtain q rc' st' where rs: "rcReset rc (diskFaulty e) (trk e) = (q, rc', st')"
    by (cases "rcReset rc (diskFaulty e) (trk e)")
  let ?e1 = "setTbl InnerSlot ((innerTable e)\<lparr>childChunk := Some (SetSel c None), rowContainer := Some rc'\<rparr>)
               (e\<lparr>trk := st'\<rparr>)"
  have a1: "accounted m0 d0 ?e1"
    using accounted_resetStore [OF assms(2) c rc rs] .
  have "e' = ?e1 \<or> fetchLoop n InnerSlot ?e1 = Some (r, e')"
    using assms(1) c rc rs
    by (auto simp: fetchNextInnerGroup_def Let_def tbl_def split: option.splits)
  then show ?thesis using a1 accounted_fetchLoop by blast
qed

lemma accounted_selectAndBegin:
  "accounted m0 d0 (snd (selectAndBegin s e)) = accounted m0 d0 e"
proof -
  obtain r e1 where s1: "selectNextGroup s e = (r, e1)" by (cases "selectNextGroup s e")
  have "accounted m0 d0 e1 = accounted m0 d0 e"
    using accounted_selectNextGroup [of m0 d0 s e] s1 by simp
  moreover have "accounted m0 d0 (setTbl s ((tbl s e1)\<lparr>groupRowsIter := x\<rparr>) e1) = accounted m0 d0 e1" for x
    using accounted_ledger [OF ledger_setTbl_iter] by blast
  ultimately show ?thesis
    using s1 by (auto simp: selectAndBegin_def Let_def split: option.splits)
qed

lemma accounted_table_update:
  "accounted m0 d0 (setTbl s ((tbl s e)\<lparr>filtersSelected := x\<rparr>) e) = accounted m0 d0 e"
  "accounted m0 d0 (setTbl s ((tbl s e)\<lparr>filtersSelected := x, groupChecker := y\<rparr>) e) = accounted m0 d0 e"
  "childChunk (tbl s e) = Some c \<Longrightarrow>
   accounted m0 d0 (setTbl s ((tbl s e)\<lparr>childChunk := Some (SetRequiredRows c k mx)\<rparr>) e) = accounted m0 d0 e"
  by (rule accounted_ledger;
      cases s; simp add: ledger_def tbl_def setTbl_def)+

lemma accounted_fetchNextOuterGroup:
  assumes "accounted m0 d0 e"
  shows "accounted m0 d0 (snd (fetchNextOuterGroup s e k))"
  using assms unfolding fetchNextOuterGroup_def Let_def
  by (auto split: option.splits prod.splits if_splits sum.splits
        simp: prod_eq_iff accounted_fetchNextChunk accounted_selectAndBegin accounted_table_update)

lemma ledger_update [simp]:
  "ledger (e\<lparr>hasMatch := a\<rparr>) = ledger e"
  "ledger (e\<lparr>hasNull := b\<rparr>) = ledger e"
  "sideLedger t = sideLedger (innerTable e) \<Longrightarrow> ledger (e\<lparr>innerTable := t\<rparr>) = ledger e"
  "sideLedger t' = sideLedger (outerTable e) \<Longrightarrow> ledger (e\<lparr>outerTable := t'\<rparr>) = ledger e"
  by (simp_all add: ledger_def)

lemma ledger_tryLoop:
  "tryLoop n row e q = Some (c, e', q') \<Longrightarrow> ledger e' = ledger e"
proof (induction n arbitrary: e q)
  case 0
  then show ?case by simp
next
  case (Suc n)
  have IH: "ledger e' = ledger e" if "tryLoop n row x y = Some (c, e', q')" and "ledger x = ledger e" for x y
    using Suc.IH that by simp
  from Suc.prems show ?case
    unfolding tryLoop.simps(2) Let_def
    by (auto split: option.splits prod.splits if_splits elim!: IH)
qed

lemma ledger_matchLoop:
  "matchLoop n e q = Some (c, e', q') \<Longrightarrow> ledger e' = ledger e"
proof (induction n arbitrary: e q)
  case 0
  then show ?case by simp
next
  case (Suc n)
  have IH: "ledger e' = ledger e" if "matchLoop n x y = Some (c, e', q')" and "ledger x = ledger e" for x y
    using Suc.IH that by simp
  have tl: "ledger x' = ledger x" if "tryLoop n row x y = Some (k, x', y')" for row x y k x' y'
    using ledger_tryLoop that by blast
  from Suc.prems show ?case
    unfolding matchLoop.simps(2) Let_def
    by (auto split: option.splits prod.splits if_splits ctl.splits dest!: tl elim!: IH)
qed

lemma ledger_dispatch:
  "dispatch n e q = Some (c, e', q') \<Longrightarrow> ledger e' = ledger e"
  unfolding dispatch_def
  by (auto split: sum.splits if_splits option.splits prod.splits dest: ledger_matchLoop)

lemma accounted_innerPhase:
  "innerPhase n e = Some (r, e') \<Longrightarrow> accounted m0 d0 e \<Longrightarrow> accounted m0 d0 e'"
  unfolding innerPhase_def
  by (auto split: option.splits if_splits dest: accounted_fetchNextInnerGroup)

lemma accounted_outerPhase:
  "accounted m0 d0 e \<Longrightarrow> accounted m0 d0 (snd (outerPhase e q))"
  unfolding outerPhase_def
  using accounted_fetchNextOuterGroup [of m0 d0 e OuterSlot]
  by (auto split: option.splits if_splits prod.splits simp: prod_eq_iff)

lemma accounted_mainLoop:
  "mainLoop n e q = Some (r, e', q') \<Longrightarrow> accounted m0 d0 e \<Longrightarrow> accounted m0 d0 e'"
proof (induction n arbitrary: e q)
  case 0
  then show ?case by simp
next
  case (Suc n)
  have ip: "accounted m0 d0 x'" if "innerPhase n x = Some (k, x')" and "accounted m0 d0 x" for x k x'
    using accounted_innerPhase that by blast
  have op: "accounted m0 d0 x'" if "outerPhase x y = (k, x')" and "accounted m0 d0 x" for x y k x'
    using accounted_outerPhase [of m0 d0 x y] that by simp
  have dp: "accounted m0 d0 x'" if "dispatch n x y = Some (k, x', y')" and "accounted m0 d0 x" for x y k x' y'
    using ledger_dispatch [OF that(1)] accounted_ledger that(2) by blast
  from Suc.prems show ?case
    unfolding mainLoop.simps(2)
    by (auto split: option.splits prod.splits if_splits ctl.splits dest!: ip op dp elim!: Suc.IH)
qed

lemma accounted_Next:
  "Next n e q = Some (r, e', q') \<Longrightarrow> accounted m0 d0 e \<Longrightarrow> accounted m0 d0 e'"
  unfolding Next_def by (rule accounted_mainLoop)

lemma accounted_nextCalls:
  "nextCalls cs e = Some e' \<Longrightarrow> accounted m0 d0 e \<Longrightarrow> accounted m0 d0 e'"
proof (induction cs arbitrary: e)
  case Nil
  then show ?case by simp
next
  case (Cons a cs)
  obtain n req where a: "a = (n, req)" by (cases a)
  from Cons.prems(1) obtain r e1 q1 where
    n1: "Next n e req = Some (r, e1, q1)" and rest: "nextCalls cs e1 = Some e'"
    unfolding a by (auto split: option.splits)
  have "accounted m0 d0 e1" using accounted_Next [OF n1 Cons.prems(2)] .
  then show ?case using Cons.IH rest by blast
qed

lemma release_all:
  assumes "tree (parentOf st)" and "balanced m0 d0 (bytesOf st) ci co"
  shows "bytesOf (Consume (TableMem OuterSlot) (- co)
                   (Detach (StoreDisk InnerSlot) (Detach (StoreMem InnerSlot)
                      (Consume (TableMem InnerSlot) (- ci) st)))) =
         (\<lambda>r. if r = ExecMem \<or> r = ExecDisk \<or> r = TableMem InnerSlot \<or> r = TableMem OuterSlot
              then 0
              else if r = StmtMem then m0 else if r = StmtDisk then d0 else bytesOf st r)"
  using assms
  by (auto simp: Consume_def Detach_def tree_def balanced_def fun_eq_iff)

lemma accounted_Close:
  assumes "accounted m0 d0 e" and "Close e = (None, e')"
  shows "bytesOf (trk e') =
         (\<lambda>r. if r = ExecMem \<or> r = ExecDisk \<or> r = TableMem InnerSlot \<or> r = TableMem OuterSlot
              then 0
              else if r = StmtMem then m0 else if r = StmtDisk then d0 else bytesOf (trk e) r)"
proof -
  from assms(1) obtain ci co rc where
    i: "inited (innerTable e)" "childChunk (innerTable e) = Some ci"
       "memTracker (innerTable e) = Some (TableMem InnerSlot)" "isInner (innerTable e)"
       "rowContainer (innerTable e) = Some rc" "rc_memTracker rc = StoreMem InnerSlot"
       "rc_diskTracker rc = StoreDisk InnerSlot"
    and ou: "inited (outerTable e)" "childChunk (outerTable e) = Some co"
       "memTracker (outerTable e) = Some (TableMem OuterSlot)" "\<not> isInner (outerTable e)"
    and tr: "tree (parentOf (trk e))"
    and ba: "balanced m0 d0 (bytesOf (trk e)) (MemoryUsage ci) (MemoryUsage co)"
    by (auto simp: accounted_def sideOk_def storeOk_def footprint_def split: option.splits)
  let ?st = "Consume (TableMem OuterSlot) (- MemoryUsage co)
               (Detach (StoreDisk InnerSlot) (Detach (StoreMem InnerSlot)
                  (Consume (TableMem InnerSlot) (- MemoryUsage ci) (trk e))))"
  have "trk e' = ?st"
    using assms(2) i ou
    by (auto simp: Close_def finish_def rcClose_def Let_def tbl_def setTbl_def
          split: prod.splits option.splits if_splits)
  then show ?thesis using release_all [OF tr ba] by simp
qed

lemma trackers_after_Open:
  assumes "parentOf st0 StmtMem = None" and "parentOf st0 StmtDisk = None"
  shows "tree (parentOf
           (Consume (TableMem OuterSlot) uo
           (AttachTo (TableMem OuterSlot) ExecMem
           (NewTracker (TableMem OuterSlot)
           (Consume (TableMem InnerSlot) ui
           (AttachTo (TableMem InnerSlot) ExecMem
           (NewTracker (TableMem InnerSlot)
           (AttachTo (StoreDisk InnerSlot) ExecDisk
           (AttachTo (StoreMem InnerSlot) ExecMem
           (NewTracker (StoreDisk InnerSlot)
           (NewTracker (StoreMem InnerSlot)
           (AttachTo ExecDisk StmtDisk
           (NewTracker ExecDisk
           (AttachTo ExecMem StmtMem
           (NewTracker ExecMem
           st0))))))))))))))) \<and>
         balanced (bytesOf st0 StmtMem) (bytesOf st0 StmtDisk)
           (bytesOf
             (Consume (TableMem OuterSlot) uo
             (AttachTo (TableMem OuterSlot) ExecMem
             (NewTracker (TableMem OuterSlot)
             (Consume (TableMem InnerSlot) ui
             (AttachTo (TableMem InnerSlot) ExecMem
             (NewTracker (TableMem InnerSlot)
             (AttachTo (StoreDisk InnerSlot) ExecDisk
             (AttachTo (StoreMem InnerSlot) ExecMem
             (NewTracker (StoreDisk InnerSlot)
             (NewTracker (StoreMem InnerSlot)
             (AttachTo ExecDisk StmtDisk
             (NewTracker ExecDisk
             (AttachTo ExecMem StmtMem
             (NewTracker ExecMem
             st0)))))))))))))))
           ui uo"
  using assms
  by (simp add: tree_def balanced_def AttachTo_def NewTracker_def Detach_def Consume_def Let_def)

lemma accounted_Open:
  assumes "parentOf (trk e0) StmtMem = None" and "parentOf (trk e0) StmtDisk = None"
    and "isInner (innerTable e0)" and "\<not> isInner (outerTable e0)"
    and "Open e0 = (None, e1)"
  shows "accounted (bytesOf (trk e0) StmtMem) (bytesOf (trk e0) StmtDisk) e1"
proof -
  let ?c = "tryNewCacheChunk e0"
  note tr = trackers_after_Open [OF assms(1,2), of "MemoryUsage ?c" "MemoryUsage ?c"]
  show ?thesis
    using assms(3,4,5) tr
    by (auto simp: Open_def init_def NewRowContainer_def Let_def tbl_def setTbl_def
          accounted_def sideOk_def storeOk_def footprint_def tryNewCacheChunk_def
          split: option.splits prod.splits if_splits)
qed


text \<open>
  Claim C7. Take an executor whose statement counters have no parent and whose sides are
  configured as inner and outer. After a successful \<^verbatim>\<open>Open\<close>, any number of
  \<^verbatim>\<open>Next\<close> calls (whatever they return) and a successful \<^verbatim>\<open>Close\<close>, the
  executor's memory counter and disk counter are at zero, as are the counters of the two
  sides, and the statement's memory and disk counters are back at what they held before
  \<^verbatim>\<open>Open\<close>.
\<close>

theorem counters_return:
  assumes "parentOf (trk e0) StmtMem = None" and "parentOf (trk e0) StmtDisk = None"
    and "isInner (innerTable e0)" and "\<not> isInner (outerTable e0)"
    and "Open e0 = (None, e1)" and "nextCalls cs e1 = Some e2" and "Close e2 = (None, e3)"
  shows "bytesOf (trk e3) ExecMem = 0 \<and> bytesOf (trk e3) ExecDisk = 0 \<and>
         bytesOf (trk e3) (TableMem InnerSlot) = 0 \<and> bytesOf (trk e3) (TableMem OuterSlot) = 0 \<and>
         bytesOf (trk e3) StmtMem = bytesOf (trk e0) StmtMem \<and>
         bytesOf (trk e3) StmtDisk = bytesOf (trk e0) StmtDisk"
proof -
  have "accounted (bytesOf (trk e0) StmtMem) (bytesOf (trk e0) StmtDisk) e1"
    using accounted_Open [OF assms(1-5)] .
  then have "accounted (bytesOf (trk e0) StmtMem) (bytesOf (trk e0) StmtDisk) e2"
    using accounted_nextCalls [OF assms(6)] by blast
  from accounted_Close [OF this assms(7)] show ?thesis by simp
qed

theorem counters_return_witness:
  "parentOf (trk memExec) StmtMem = None \<and> parentOf (trk memExec) StmtDisk = None \<and>
   isInner (innerTable memExec) \<and> \<not> isInner (outerTable memExec) \<and>
   Open memExec = (None, opened memExec) \<and>
   nextCalls [(12, newChunk 4 4 0)] (opened memExec) = Some memAfter \<and>
   Close memAfter = (None, snd (Close memAfter)) \<and>
   map (bytesOf (trk memExec)) [ExecMem, ExecDisk, StmtMem, StmtDisk] = [0, 0, 1000, 7] \<and>
   map (bytesOf (trk (opened memExec))) [ExecMem, ExecDisk, StmtMem, StmtDisk] = [128, 0, 1128, 7] \<and>
   map (bytesOf (trk memAfter)) [ExecMem, ExecDisk, StmtMem, StmtDisk] = [150, 200, 1150, 207] \<and>
   map (bytesOf (trk (snd (Close memAfter)))) [ExecMem, ExecDisk, StmtMem, StmtDisk] =
     [0, 0, 1000, 7]"
proof -
  have h1: "parentOf (trk memExec) StmtMem = None" "parentOf (trk memExec) StmtDisk = None"
    by (simp_all add: memExec_def)
  have h3: "isInner (innerTable memExec)" "\<not> isInner (outerTable memExec)"
    by (simp_all add: memExec_def newExec_def newTable_def)
  have h5: "Open memExec = (None, opened memExec)"
    by (simp add: memExec_def run_simps)
  have h6: "nextCalls [(12, newChunk 4 4 0)] (opened memExec) = Some memAfter"
    by (simp add: memAfter_def memExec_def run_simps joinInners.simps)
  have h7: "fst (Close memAfter) = None"
    by (simp add: memAfter_def memExec_def run_simps joinInners.simps)
  then have h7': "Close memAfter = (None, snd (Close memAfter))"
    by (simp add: prod_eq_iff)
  have b0: "map (bytesOf (trk memExec)) [ExecMem, ExecDisk, StmtMem, StmtDisk] = [0, 0, 1000, 7]"
    by (simp add: memExec_def)
  have b1: "map (bytesOf (trk (opened memExec))) [ExecMem, ExecDisk, StmtMem, StmtDisk] =
              [128, 0, 1128, 7]"
    by (simp add: memExec_def run_simps)
  have b2: "map (bytesOf (trk memAfter)) [ExecMem, ExecDisk, StmtMem, StmtDisk] =
              [150, 200, 1150, 207]"
    by (simp add: memAfter_def memExec_def run_simps joinInners.simps)
  have b3: "map (bytesOf (trk (snd (Close memAfter)))) [ExecMem, ExecDisk, StmtMem, StmtDisk] =
              [0, 0, 1000, 7]"
    using counters_return [OF h1 h3 h5 h6 h7'] b0 by simp
  from h1 h3 h5 h6 h7' b0 b1 b2 b3 show ?thesis by (intro conjI)
qed

end
